theory Spec2Isabelle
  imports Main "HOL-Library.Word"
begin

section \<open>The gateway of openapi/api.py\<close>

text \<open>
  The module \<^verbatim>\<open>openapi/api.py\<close> is a FastAPI gateway over Chia full nodes. Its
  collaborators (the RPC client, the bech32m address decoder, the Program codec and the
  NFT extractor) live in sibling modules; here each one is a parameter of the function
  that calls it, returning \<open>Inl\<close> where the Python raises.
\<close>

subsection \<open>Values, exceptions and the logger\<close>

type_synonym byte = "8 word"
type_synonym bytes = "byte list"

text \<open>JSON values, for the bodies the gateway hands through without looking inside.\<close>

datatype json =
    JNull
  | JBool bool
  | JNum int
  | JStr string
  | JArr "json list"
  | JObj "(string \<times> json) list"

text \<open>
  The exceptions that travel through the module. \<open>ValueError\<close>, \<open>KeyError\<close> and
  \<open>HTTPException\<close> are named by the code; the others are the failures the
  collaborators are documented to raise. All of them derive from Python's
  \<^verbatim>\<open>Exception\<close>, which is what \<^verbatim>\<open>except Exception\<close> catches.
\<close>

datatype exn =
    ValueError string
  | KeyError string
  | HTTPException nat string
  | RpcError string
  | MalformedEncoding
  | NotASingleton
  | NotAnNFT
  | UnsupportedNFTVersion
  | UnrecognizedPuzzleLayer

text \<open>
  The module-level \<^verbatim>\<open>logger\<close> is the gateway's only channel to the operator. A log
  line keeps its level, its format string and its arguments.
\<close>

datatype log_arg = ArgJson json | ArgExn exn

datatype log_line = Warning string "log_arg list"

type_synonym log = "log_line list"

definition logger_warning :: "string \<Rightarrow> log_arg list \<Rightarrow> log \<Rightarrow> log" where
  "logger_warning fmt args lg = lg @ [Warning fmt args]"

subsection \<open>Coins and coin records, as the node's JSON gives them\<close>

record coin_json =
  parent_coin_info :: string
  puzzle_hash :: string
  amount :: int

record coin_record =
  coin :: coin_json
  spent :: bool
  confirmed_block_index :: nat

text \<open>The answer of \<^verbatim>\<open>get_puzzle_and_solution\<close>: two hex strings.\<close>

record coin_spend =
  puzzle_reveal :: string
  solution :: string

subsection \<open>The RPC client and the chain registry\<close>

text \<open>
  \<^verbatim>\<open>FullNodeRpcClient\<close>. The three queries read the node and are functions of their
  arguments for the time of one request; \<^verbatim>\<open>push_tx\<close> and \<^verbatim>\<open>raw_fetch\<close> may change
  the node, so they take its state \<open>'n\<close> and return the new one.
\<close>

record 'n client =
  get_coin_records_by_puzzle_hash :: "bytes \<Rightarrow> bool \<Rightarrow> exn + coin_record list"
  get_coin_records_by_hint :: "bytes \<Rightarrow> bool \<Rightarrow> nat \<Rightarrow> exn + coin_record list"
  get_puzzle_and_solution :: "bytes \<Rightarrow> nat \<Rightarrow> exn + coin_spend"
  push_tx :: "json \<Rightarrow> 'n \<Rightarrow> (exn + (string \<times> json) list) \<times> 'n"
  raw_fetch :: "string \<Rightarrow> json option \<Rightarrow> 'n \<Rightarrow> (exn + json) \<times> 'n"

text \<open>The dataclass \<^verbatim>\<open>Chain\<close>; its field \<^verbatim>\<open>id\<close> is \<open>chain_id\<close> here.\<close>

record 'n chain =
  chain_id :: string
  network_name :: string
  network_prefix :: string
  client :: "'n client"

text \<open>
  \<^verbatim>\<open>get_chain\<close>: the dependency that resolves the \<^verbatim>\<open>chain\<close> query parameter
  (\<^verbatim>\<open>"0x01"\<close> when the request names none) in the registry \<^verbatim>\<open>app.state.chains\<close>.
\<close>

definition get_chain :: "(string \<rightharpoonup> 'n chain) \<Rightarrow> string \<Rightarrow> exn + 'n chain" where
  "get_chain chain_map ch =
     (case chain_map ch of
        None \<Rightarrow> Inl (HTTPException 400 ''Ivalid Chain'')
      | Some c \<Rightarrow> Inr c)"

text \<open>
  \<^verbatim>\<open>decode_address\<close>. The bech32m decoder \<^verbatim>\<open>decode_puzzle_hash\<close> is the parameter
  \<open>dph\<close>. Only a \<^verbatim>\<open>ValueError\<close> (the decoder's, or the one raised for a wrong prefix)
  becomes the HTTP 400; any other exception passes through.
\<close>

definition decode_address ::
  "(string \<Rightarrow> exn + string \<times> bytes) \<Rightarrow> string \<Rightarrow> string \<Rightarrow> exn + bytes" where
  "decode_address dph address prefix =
     (case dph address of
        Inl (ValueError m) \<Rightarrow> Inl (HTTPException 400 ''Invalid Address'')
      | Inl e \<Rightarrow> Inl e
      | Inr (prefix', pzh) \<Rightarrow>
          if prefix' \<noteq> prefix then Inl (HTTPException 400 ''Invalid Address'')
          else Inr pzh)"

subsection \<open>Python's \<^verbatim>\<open>str\<close> on integers and \<^verbatim>\<open>bytes.hex\<close>\<close>

definition digit_char :: "nat \<Rightarrow> char" where
  "digit_char d = ''0123456789abcdef'' ! d"

function str_nat :: "nat \<Rightarrow> string" where
  "str_nat n = (if n < 10 then [digit_char n] else str_nat (n div 10) @ [digit_char (n mod 10)])"
  by pat_completeness auto
termination
  by (relation "measure id") auto

declare str_nat.simps [simp del]

definition str_int :: "int \<Rightarrow> string" where
  "str_int i = (if i < 0 then CHR ''-'' # str_nat (nat (- i)) else str_nat (nat i))"

text \<open>Reading a decimal numeral back, to say what "decimal string form" means.\<close>

definition digit_value :: "char \<Rightarrow> nat" where
  "digit_value c = of_char c - 48"

definition decimal_value :: "string \<Rightarrow> nat" where
  "decimal_value s = foldl (\<lambda>a c. 10 * a + digit_value c) 0 s"

definition int_of_decimal :: "string \<Rightarrow> int" where
  "int_of_decimal s =
     (case s of
        [] \<Rightarrow> 0
      | c # cs \<Rightarrow> if c = CHR ''-'' then - int (decimal_value cs) else int (decimal_value s))"

definition byte_hex :: "byte \<Rightarrow> string" where
  "byte_hex b = [digit_char (unat b div 16), digit_char (unat b mod 16)]"

definition bytes_hex :: "bytes \<Rightarrow> string" where
  "bytes_hex bs = concat (map byte_hex bs)"

subsection \<open>\<^verbatim>\<open>/utxos\<close>\<close>

text \<open>The response model \<^verbatim>\<open>UTXO\<close>: three strings.\<close>

record utxo =
  utxo_parent_coin_info :: string
  utxo_puzzle_hash :: string
  utxo_amount :: string

definition coin_javascript_compat :: "coin_json \<Rightarrow> utxo" where
  "coin_javascript_compat c =
     \<lparr>utxo_parent_coin_info = parent_coin_info c,
      utxo_puzzle_hash = puzzle_hash c,
      utxo_amount = str_int (amount c)\<rparr>"

text \<open>The loop of \<^verbatim>\<open>get_utxos\<close> over the coin records, appending to \<^verbatim>\<open>data\<close>.\<close>

fun utxos_loop :: "coin_record list \<Rightarrow> utxo list \<Rightarrow> utxo list" where
  "utxos_loop [] data = data"
| "utxos_loop (row # rows) data =
     (if spent row then utxos_loop rows data
      else utxos_loop rows (data @ [coin_javascript_compat (coin row)]))"

definition get_utxos ::
  "(string \<Rightarrow> exn + string \<times> bytes) \<Rightarrow> string \<Rightarrow> 'n chain \<Rightarrow> exn + utxo list" where
  "get_utxos dph address ch =
     (case decode_address dph address (network_prefix ch) of
        Inl e \<Rightarrow> Inl e
      | Inr pzh \<Rightarrow>
          (case get_coin_records_by_puzzle_hash (client ch) pzh False of
             Inl e \<Rightarrow> Inl e
           | Inr coin_records \<Rightarrow> Inr (utxos_loop coin_records [])))"

subsection \<open>\<^verbatim>\<open>/sendtx\<close>\<close>

text \<open>
  \<^verbatim>\<open>create_transaction\<close>. A \<^verbatim>\<open>ValueError\<close> of \<^verbatim>\<open>push_tx\<close> is logged as a warning
  and answered with HTTP 400; the answer otherwise keeps only \<^verbatim>\<open>resp['status']\<close>.
\<close>

definition create_transaction ::
  "json \<Rightarrow> 'n chain \<Rightarrow> 'n \<Rightarrow> log \<Rightarrow> (exn + json) \<times> 'n \<times> log" where
  "create_transaction spb ch n lg =
     (case push_tx (client ch) spb n of
        (Inl (ValueError m), n') \<Rightarrow>
          (Inl (HTTPException 400 m), n',
           logger_warning ''sendtx: %s, error: %r'' [ArgJson spb, ArgExn (ValueError m)] lg)
      | (Inl e, n') \<Rightarrow> (Inl e, n', lg)
      | (Inr resp, n') \<Rightarrow>
          (case map_of resp ''status'' of
             None \<Rightarrow> (Inl (KeyError ''status''), n', lg)
           | Some st \<Rightarrow> (Inr (JObj [(''status'', st)]), n', lg)))"

subsection \<open>\<^verbatim>\<open>/chia_rpc\<close>\<close>

text \<open>The request body \<^verbatim>\<open>ChiaRpcParams\<close>; its field \<^verbatim>\<open>method\<close> is \<open>rpc_method\<close> here.\<close>

record chia_rpc_params =
  rpc_method :: string
  params :: "json option"

text \<open>
  \<^verbatim>\<open>full_node_rpc\<close>. The allow list \<^verbatim>\<open>RPC_METHOD_WHITE_LIST\<close> is the set built from
  the configuration, which is not part of the module: it is the first parameter.
\<close>

definition full_node_rpc ::
  "string set \<Rightarrow> chia_rpc_params \<Rightarrow> 'n chain \<Rightarrow> 'n \<Rightarrow> (exn + json) \<times> 'n" where
  "full_node_rpc RPC_METHOD_WHITE_LIST item ch n =
     (if rpc_method item \<notin> RPC_METHOD_WHITE_LIST
      then (Inl (HTTPException 400 (''unspport chia rpc method: '' @ rpc_method item)), n)
      else raw_fetch (client ch) (rpc_method item) (params item) n)"

subsection \<open>\<^verbatim>\<open>/balance\<close>\<close>

record balance =
  balance_amount :: int

definition query_balance ::
  "(string \<Rightarrow> exn + string \<times> bytes) \<Rightarrow> string \<Rightarrow> 'n chain \<Rightarrow> exn + balance" where
  "query_balance dph address ch =
     (case decode_address dph address (network_prefix ch) of
        Inl e \<Rightarrow> Inl e
      | Inr pzh \<Rightarrow>
          (case get_coin_records_by_puzzle_hash (client ch) pzh False of
             Inl e \<Rightarrow> Inl e
           | Inr coin_records \<Rightarrow>
               Inr \<lparr>balance_amount =
                      sum_list (map (\<lambda>c. amount (coin c)) (filter (\<lambda>c. \<not> spent c) coin_records))\<rparr>))"

subsection \<open>\<^verbatim>\<open>/nfts\<close>\<close>

text \<open>
  What \<^verbatim>\<open>list_nfts\<close> imports from the sibling modules \<^verbatim>\<open>utils\<close>, \<^verbatim>\<open>types\<close> and
  \<^verbatim>\<open>nft\<close>: the hex reader, the two deserialisers, the extractor, and of the extractor's
  result its \<^verbatim>\<open>owner\<close> attribute and its \<^verbatim>\<open>to_dict\<close> method. The types of coins
  \<open>'c\<close>, programs \<open>'p\<close>, NFT infos \<open>'i\<close> and their dictionaries \<open>'d\<close> stay open.
\<close>

record ('c, 'p, 'i, 'd) nft_lib =
  hexstr_to_bytes :: "string \<Rightarrow> exn + bytes"
  Coin_from_json_dict :: "coin_json \<Rightarrow> exn + 'c"
  Program_fromhex :: "string \<Rightarrow> exn + 'p"
  get_nft_info :: "'c \<Rightarrow> 'p \<Rightarrow> 'p \<Rightarrow> exn + 'i"
  nft_owner :: "'i \<Rightarrow> string"
  nft_to_dict :: "'i \<Rightarrow> 'd"

text \<open>
  The list comprehension that builds one \<^verbatim>\<open>get_puzzle_and_solution\<close> call per coin
  record: the arguments are evaluated in order, and the first \<^verbatim>\<open>hexstr_to_bytes\<close> that
  raises ends the comprehension before any call is awaited.
\<close>

fun puzzle_calls ::
  "('c, 'p, 'i, 'd) nft_lib \<Rightarrow> coin_record list \<Rightarrow> exn + (bytes \<times> nat) list" where
  "puzzle_calls L [] = Inr []"
| "puzzle_calls L (cr # crs) =
     (case hexstr_to_bytes L (parent_coin_info (coin cr)) of
        Inl e \<Rightarrow> Inl e
      | Inr coin_id \<Rightarrow>
          (case puzzle_calls L crs of
             Inl e \<Rightarrow> Inl e
           | Inr calls \<Rightarrow> Inr ((coin_id, confirmed_block_index cr) # calls)))"

text \<open>
  \<^verbatim>\<open>asyncio.gather\<close> without \<^verbatim>\<open>return_exceptions\<close> runs the awaitables
  concurrently. When all succeed it returns their results in the order of the
  awaitables. Otherwise the first awaitable to fail, in the order in which they finish,
  raises its exception to the caller. That order is the event loop's, not the code's:
  it is the parameter \<open>finished\<close>, the positions of the awaitables in the order they
  finish (an awaitable it does not list finishes after the listed ones).
\<close>

fun first_failure :: "nat list \<Rightarrow> (exn + 'a) list \<Rightarrow> exn option" where
  "first_failure [] rs = None"
| "first_failure (i # finished) rs =
     (if i < length rs
      then (case rs ! i of Inl e \<Rightarrow> Some e | Inr v \<Rightarrow> first_failure finished rs)
      else first_failure finished rs)"

text \<open>The results in the order of the awaitables; a failure left over is raised in that order.\<close>

fun in_order :: "(exn + 'a) list \<Rightarrow> exn + 'a list" where
  "in_order [] = Inr []"
| "in_order (r # rs) =
     (case r of
        Inl e \<Rightarrow> Inl e
      | Inr v \<Rightarrow> (case in_order rs of Inl e \<Rightarrow> Inl e | Inr vs \<Rightarrow> Inr (v # vs)))"

definition gather :: "nat list \<Rightarrow> (exn + 'a) list \<Rightarrow> exn + 'a list" where
  "gather finished rs =
     (case first_failure finished rs of
        Some e \<Rightarrow> Inl e
      | None \<Rightarrow> in_order rs)"

text \<open>
  One pass through the body of the \<^verbatim>\<open>for\<close> loop over
  \<^verbatim>\<open>zip(coin_records, pz_and_solutions)\<close> ends in one of three ways: an exception
  leaves the loop, \<^verbatim>\<open>continue\<close> skips the coin, or a dictionary is appended.
\<close>

datatype 'd step = Raise exn | Continue | Append 'd

text \<open>
  The loop body. The three deserialisations stand before the \<^verbatim>\<open>try\<close>; only
  \<^verbatim>\<open>get_nft_info\<close> is inside it, and \<^verbatim>\<open>except Exception\<close> answers every exception
  of it with \<^verbatim>\<open>continue\<close>.
\<close>

definition nft_item ::
  "('c, 'p, 'i, 'd) nft_lib \<Rightarrow> bytes \<Rightarrow> coin_record \<times> coin_spend \<Rightarrow> 'd step" where
  "nft_item L pzh item =
     (case item of (coin_record, cs) \<Rightarrow>
     (case Coin_from_json_dict L (coin coin_record) of
        Inl e \<Rightarrow> Raise e
      | Inr nft_coin \<Rightarrow>
     (case Program_fromhex L (puzzle_reveal cs) of
        Inl e \<Rightarrow> Raise e
      | Inr puzzle \<Rightarrow>
     (case Program_fromhex L (solution cs) of
        Inl e \<Rightarrow> Raise e
      | Inr sol \<Rightarrow>
     (case get_nft_info L nft_coin puzzle sol of
        Inl e \<Rightarrow> Continue
      | Inr nft_info \<Rightarrow>
          if nft_owner L nft_info \<noteq> bytes_hex pzh then Continue
          else Append (nft_to_dict L nft_info))))))"

text \<open>
  The loop, with the list \<^verbatim>\<open>data\<close> it appends to. It takes the log and hands it on:
  nothing in the loop calls the logger.
\<close>

fun nft_loop ::
  "('c, 'p, 'i, 'd) nft_lib \<Rightarrow> bytes \<Rightarrow> (coin_record \<times> coin_spend) list \<Rightarrow> 'd list \<Rightarrow> log
     \<Rightarrow> (exn + 'd list) \<times> log" where
  "nft_loop L pzh [] data lg = (Inr data, lg)"
| "nft_loop L pzh (item # rest) data lg =
     (case nft_item L pzh item of
        Raise e \<Rightarrow> (Inl e, lg)
      | Continue \<Rightarrow> nft_loop L pzh rest data lg
      | Append nft_info_dict \<Rightarrow> nft_loop L pzh rest (data @ [nft_info_dict]) lg)"

text \<open>
  The part of \<^verbatim>\<open>list_nfts\<close> before the loop: the puzzle hash of the address, the
  hinted coin records, and the puzzle and solution fetched for each of them.
  \<^verbatim>\<open>settings.NFT_CHAIN_START_HEIGHT\<close> is a dictionary of the configuration, a
  parameter here; a network name it lacks is a \<^verbatim>\<open>KeyError\<close>. \<open>finished\<close> is the
  order in which the event loop finishes the calls of this request.
\<close>

definition nft_batch ::
  "(string \<Rightarrow> exn + string \<times> bytes) \<Rightarrow> ('c, 'p, 'i, 'd) nft_lib \<Rightarrow> (string \<rightharpoonup> nat)
     \<Rightarrow> nat list \<Rightarrow> string \<Rightarrow> 'n chain \<Rightarrow> exn + bytes \<times> (coin_record \<times> coin_spend) list" where
  "nft_batch dph L NFT_CHAIN_START_HEIGHT finished address ch =
     (case decode_address dph address (network_prefix ch) of
        Inl e \<Rightarrow> Inl e
      | Inr pzh \<Rightarrow>
     (case NFT_CHAIN_START_HEIGHT (network_name ch) of
        None \<Rightarrow> Inl (KeyError (network_name ch))
      | Some start_height \<Rightarrow>
     (case get_coin_records_by_hint (client ch) pzh False start_height of
        Inl e \<Rightarrow> Inl e
      | Inr coin_records \<Rightarrow>
     (case puzzle_calls L coin_records of
        Inl e \<Rightarrow> Inl e
      | Inr calls \<Rightarrow>
     (case gather finished
             (map (\<lambda>(coin_id, height). get_puzzle_and_solution (client ch) coin_id height)
                calls) of
        Inl e \<Rightarrow> Inl e
      | Inr pz_and_solutions \<Rightarrow> Inr (pzh, zip coin_records pz_and_solutions))))))"

text \<open>\<^verbatim>\<open>list_nfts\<close>: the batch, then the loop over it from an empty \<^verbatim>\<open>data\<close>.\<close>

definition list_nfts ::
  "(string \<Rightarrow> exn + string \<times> bytes) \<Rightarrow> ('c, 'p, 'i, 'd) nft_lib \<Rightarrow> (string \<rightharpoonup> nat)
     \<Rightarrow> nat list \<Rightarrow> string \<Rightarrow> 'n chain \<Rightarrow> log \<Rightarrow> (exn + 'd list) \<times> log" where
  "list_nfts dph L NFT_CHAIN_START_HEIGHT finished address ch lg =
     (case nft_batch dph L NFT_CHAIN_START_HEIGHT finished address ch of
        Inl e \<Rightarrow> (Inl e, lg)
      | Inr (pzh, batch) \<Rightarrow> nft_loop L pzh batch [] lg)"

text \<open>
  Two ways a coin of the batch can go wrong: a deserialisation before the \<^verbatim>\<open>try\<close>
  raises, or all three succeed and the extractor raises.
\<close>

definition deserialises :: "('c, 'p, 'i, 'd) nft_lib \<Rightarrow> coin_record \<times> coin_spend \<Rightarrow> bool" where
  "deserialises L item =
     (case item of (coin_record, cs) \<Rightarrow>
        \<not> isl (Coin_from_json_dict L (coin coin_record)) \<and>
        \<not> isl (Program_fromhex L (puzzle_reveal cs)) \<and>
        \<not> isl (Program_fromhex L (solution cs)))"

text \<open>What the extractor answers for a coin, when the coin gets as far as the \<^verbatim>\<open>try\<close>.\<close>

definition extraction ::
  "('c, 'p, 'i, 'd) nft_lib \<Rightarrow> coin_record \<times> coin_spend \<Rightarrow> (exn + 'i) option" where
  "extraction L item =
     (case item of (coin_record, cs) \<Rightarrow>
     (case Coin_from_json_dict L (coin coin_record) of
        Inl e \<Rightarrow> None
      | Inr nft_coin \<Rightarrow>
     (case Program_fromhex L (puzzle_reveal cs) of
        Inl e \<Rightarrow> None
      | Inr puzzle \<Rightarrow>
     (case Program_fromhex L (solution cs) of
        Inl e \<Rightarrow> None
      | Inr sol \<Rightarrow> Some (get_nft_info L nft_coin puzzle sol)))))"

text \<open>What one coin adds to the listing: its dictionary, or nothing.\<close>

definition listed ::
  "('c, 'p, 'i, 'd) nft_lib \<Rightarrow> bytes \<Rightarrow> coin_record \<times> coin_spend \<Rightarrow> 'd list" where
  "listed L pzh item = (case nft_item L pzh item of Append d \<Rightarrow> [d] | _ \<Rightarrow> [])"

text \<open>An extractor that tells nothing about why it failed: every exception is \<^verbatim>\<open>NotAnNFT\<close>.\<close>

definition plain_non_match :: "('c, 'p, 'i, 'd) nft_lib \<Rightarrow> ('c, 'p, 'i, 'd) nft_lib" where
  "plain_non_match L =
     L\<lparr>get_nft_info :=
          \<lambda>c puzzle sol. case get_nft_info L c puzzle sol of Inl e \<Rightarrow> Inl NotAnNFT | Inr i \<Rightarrow> Inr i\<rparr>"

subsection \<open>The cache decorator\<close>

text \<open>
  The three read endpoints share the cache \<^verbatim>\<open>default\<close>, so one cache holds the
  answers of all three.
\<close>

datatype 'd response = Utxos "utxo list" | Balance balance | Nfts "'d list"

text \<open>A cache maps a key to a value and the time at which the entry expires.\<close>

type_synonym 'v cache = "string \<rightharpoonup> 'v \<times> nat"

definition cache_get :: "'v cache \<Rightarrow> string \<Rightarrow> nat \<Rightarrow> 'v option" where
  "cache_get c key now =
     (case c key of
        None \<Rightarrow> None
      | Some (v, expires) \<Rightarrow> if now < expires then Some v else None)"

text \<open>
  aiocache's \<^verbatim>\<open>cached(ttl, key_builder)\<close> around a function \<open>f\<close>: the key is built
  from the keyword arguments; a live entry is returned without calling \<open>f\<close>; otherwise
  \<open>f\<close> runs, and its result, unless it raised, is stored for \<open>ttl\<close> time units. \<open>now\<close>
  is the time of the call, \<open>s\<close> whatever state \<open>f\<close> works on.
\<close>

definition cached ::
  "nat \<Rightarrow> ('k \<Rightarrow> string) \<Rightarrow> ('k \<Rightarrow> 's \<Rightarrow> (exn + 'v) \<times> 's) \<Rightarrow> 'k \<Rightarrow> nat \<Rightarrow> 'v cache \<Rightarrow> 's
     \<Rightarrow> (exn + 'v) \<times> 'v cache \<times> 's" where
  "cached ttl key_builder f kwargs now c s =
     (let key = key_builder kwargs in
      case cache_get c key now of
        Some v \<Rightarrow> (Inr v, c, s)
      | None \<Rightarrow>
          (case f kwargs s of
             (Inl e, s') \<Rightarrow> (Inl e, c, s')
           | (Inr v, s') \<Rightarrow> (Inr v, c(key \<mapsto> (v, now + ttl)), s')))"

text \<open>The keyword arguments FastAPI calls a read endpoint with.\<close>

record 'n kwargs =
  kw_address :: string
  kw_chain :: "'n chain"

text \<open>The three \<^verbatim>\<open>key_builder\<close> lambdas.\<close>

definition utxos_key_builder :: "'n kwargs \<Rightarrow> string" where
  "utxos_key_builder kw = ''utxos:'' @ kw_address kw"

definition balance_key_builder :: "'n kwargs \<Rightarrow> string" where
  "balance_key_builder kw = ''balance:'' @ kw_address kw"

definition nfts_key_builder :: "'n kwargs \<Rightarrow> string" where
  "nfts_key_builder kw = ''nfts:'' @ kw_address kw"

text \<open>The decorated endpoints, as the router calls them.\<close>

definition get_utxos_cached ::
  "(string \<Rightarrow> exn + string \<times> bytes) \<Rightarrow> 'n kwargs \<Rightarrow> nat \<Rightarrow> 'd response cache \<Rightarrow> log
     \<Rightarrow> (exn + 'd response) \<times> 'd response cache \<times> log" where
  "get_utxos_cached dph =
     cached 10 utxos_key_builder
       (\<lambda>kw lg. (map_sum id Utxos (get_utxos dph (kw_address kw) (kw_chain kw)), lg))"

definition query_balance_cached ::
  "(string \<Rightarrow> exn + string \<times> bytes) \<Rightarrow> 'n kwargs \<Rightarrow> nat \<Rightarrow> 'd response cache \<Rightarrow> log
     \<Rightarrow> (exn + 'd response) \<times> 'd response cache \<times> log" where
  "query_balance_cached dph =
     cached 10 balance_key_builder
       (\<lambda>kw lg. (map_sum id Balance (query_balance dph (kw_address kw) (kw_chain kw)), lg))"

definition list_nfts_cached ::
  "(string \<Rightarrow> exn + string \<times> bytes) \<Rightarrow> ('c, 'p, 'i, 'd) nft_lib \<Rightarrow> (string \<rightharpoonup> nat)
     \<Rightarrow> nat list \<Rightarrow> 'n kwargs \<Rightarrow> nat \<Rightarrow> 'd response cache \<Rightarrow> log
     \<Rightarrow> (exn + 'd response) \<times> 'd response cache \<times> log" where
  "list_nfts_cached dph L NFT_CHAIN_START_HEIGHT finished =
     cached 20 nfts_key_builder
       (\<lambda>kw lg.
          case list_nfts dph L NFT_CHAIN_START_HEIGHT finished (kw_address kw) (kw_chain kw) lg of
                  (r, lg') \<Rightarrow> (map_sum id Nfts r, lg'))"

text \<open>
  A request is an address and a chain id. The router resolves the chain with
  \<^verbatim>\<open>get_chain\<close> first and then calls the decorated endpoint.
\<close>

definition route_utxos ::
  "(string \<rightharpoonup> 'n chain) \<Rightarrow> (string \<Rightarrow> exn + string \<times> bytes) \<Rightarrow> string \<Rightarrow> string \<Rightarrow> nat
     \<Rightarrow> 'd response cache \<Rightarrow> log \<Rightarrow> (exn + 'd response) \<times> 'd response cache \<times> log" where
  "route_utxos chain_map dph address ch now c lg =
     (case get_chain chain_map ch of
        Inl e \<Rightarrow> (Inl e, c, lg)
      | Inr chn \<Rightarrow> get_utxos_cached dph \<lparr>kw_address = address, kw_chain = chn\<rparr> now c lg)"

definition route_balance ::
  "(string \<rightharpoonup> 'n chain) \<Rightarrow> (string \<Rightarrow> exn + string \<times> bytes) \<Rightarrow> string \<Rightarrow> string \<Rightarrow> nat
     \<Rightarrow> 'd response cache \<Rightarrow> log \<Rightarrow> (exn + 'd response) \<times> 'd response cache \<times> log" where
  "route_balance chain_map dph address ch now c lg =
     (case get_chain chain_map ch of
        Inl e \<Rightarrow> (Inl e, c, lg)
      | Inr chn \<Rightarrow> query_balance_cached dph \<lparr>kw_address = address, kw_chain = chn\<rparr> now c lg)"

definition route_nfts ::
  "(string \<rightharpoonup> 'n chain) \<Rightarrow> (string \<Rightarrow> exn + string \<times> bytes) \<Rightarrow> ('c, 'p, 'i, 'd) nft_lib
     \<Rightarrow> (string \<rightharpoonup> nat) \<Rightarrow> nat list \<Rightarrow> string \<Rightarrow> string \<Rightarrow> nat
     \<Rightarrow> 'd response cache \<Rightarrow> log \<Rightarrow> (exn + 'd response) \<times> 'd response cache \<times> log" where
  "route_nfts chain_map dph L NFT_CHAIN_START_HEIGHT finished address ch now c lg =
     (case get_chain chain_map ch of
        Inl e \<Rightarrow> (Inl e, c, lg)
      | Inr chn \<Rightarrow>
          list_nfts_cached dph L NFT_CHAIN_START_HEIGHT finished
            \<lparr>kw_address = address, kw_chain = chn\<rparr> now c lg)"

text \<open>\<^verbatim>\<open>/chia_rpc\<close> as routed: the chain is resolved before the body runs.\<close>

definition route_chia_rpc ::
  "(string \<rightharpoonup> 'n chain) \<Rightarrow> string set \<Rightarrow> chia_rpc_params \<Rightarrow> string \<Rightarrow> 'n
     \<Rightarrow> (exn + json) \<times> 'n" where
  "route_chia_rpc chain_map RPC_METHOD_WHITE_LIST item ch n =
     (case get_chain chain_map ch of
        Inl e \<Rightarrow> (Inl e, n)
      | Inr chn \<Rightarrow> full_node_rpc RPC_METHOD_WHITE_LIST item chn n)"

section \<open>The Program codec\<close>

text \<open>
  \<^verbatim>\<open>Program\<close> and its serialisation are defined in \<^verbatim>\<open>openapi/types.py\<close>, which this
  development does not have. The gateway only calls \<^verbatim>\<open>Program.fromhex\<close>. Everything
  in this section follows the written specification of the codec (sections 3 and 4.1),
  whose format is the one of the upstream full node.
\<close>

text \<open>
  Modelled from the spec: the type \<^verbatim>\<open>Program\<close> of \<^verbatim>\<open>openapi/types.py\<close>. A program is an
  atom (a byte sequence) or a pair of programs. \<open>PairP\<close> is the spec's \<^verbatim>\<open>Pair\<close>.
\<close>

datatype program = Atom bytes | PairP program program

text \<open>
  Modelled from the spec: the big-endian bytes of a length, as the length prefix of
  \<^verbatim>\<open>encode\<close> in \<^verbatim>\<open>openapi/types.py\<close> stores them. \<open>be_bytes k n\<close> are the \<open>k\<close> low
  bytes of \<open>n\<close>, most significant first.
\<close>

fun be_bytes :: "nat \<Rightarrow> nat \<Rightarrow> bytes" where
  "be_bytes 0 n = []"
| "be_bytes (Suc k) n = of_nat (n div 256 ^ k) # be_bytes k (n mod 256 ^ k)"

text \<open>
  Modelled from the spec: the number a big-endian byte string stands for, as
  \<^verbatim>\<open>decode\<close> in \<^verbatim>\<open>openapi/types.py\<close> reads a length prefix.
\<close>

fun be_value :: "bytes \<Rightarrow> nat" where
  "be_value [] = 0"
| "be_value (b # bs) = unat b * 256 ^ length bs + be_value bs"

text \<open>
  Modelled from the spec: the number of prefix bytes of \<^verbatim>\<open>encode\<close> in
  \<^verbatim>\<open>openapi/types.py\<close>, "1 to 5 prefix bytes depending on magnitude". The first
  prefix byte starts with as many one bits as there are prefix bytes and a zero bit, so
  1, 2, 3, 4 and 5 prefix bytes hold lengths of 6, 13, 20, 27 and 34 bits.
\<close>

definition prefix_len :: "nat \<Rightarrow> nat" where
  "prefix_len n =
     (if n < 0x40 then 1 else if n < 0x2000 then 2 else if n < 0x100000 then 3
      else if n < 0x8000000 then 4 else 5)"

text \<open>
  Modelled from the spec: the leading one bits of the first prefix byte, for each number
  of prefix bytes of \<^verbatim>\<open>encode\<close> in \<^verbatim>\<open>openapi/types.py\<close> (the "leading byte in the
  range 0x80 to 0xFF").
\<close>

definition prefix_marker :: "nat \<Rightarrow> nat" where
  "prefix_marker k =
     (if k = 1 then 0x80 else if k = 2 then 0xC0 else if k = 3 then 0xE0
      else if k = 4 then 0xF0 else 0xF8)"

text \<open>
  Modelled from the spec: the length prefix \<^verbatim>\<open>encode\<close> in \<^verbatim>\<open>openapi/types.py\<close> writes
  before the raw bytes of an atom: the marker bits and the length, big-endian.
\<close>

definition size_prefix :: "nat \<Rightarrow> bytes" where
  "size_prefix n =
     (let k = prefix_len n
      in of_nat (prefix_marker k + n div 256 ^ (k - 1)) # be_bytes (k - 1) (n mod 256 ^ (k - 1)))"

text \<open>
  Modelled from the spec: the encoding of an atom by \<^verbatim>\<open>encode\<close> in
  \<^verbatim>\<open>openapi/types.py\<close>. The empty atom is the single byte 0x80; a one-byte atom in
  0x00 to 0x7F is itself; any other atom is its length prefix and its bytes.
\<close>

definition atom_to_bytes :: "bytes \<Rightarrow> bytes" where
  "atom_to_bytes a =
     (if a = [] then [0x80]
      else if length a = 1 \<and> hd a < 0x80 then a
      else size_prefix (length a) @ a)"

text \<open>
  Modelled from the spec: \<^verbatim>\<open>encode\<close> of \<^verbatim>\<open>openapi/types.py\<close>, total and deterministic.
  The byte 0xFF announces a pair, followed by the encoding of \<^verbatim>\<open>first\<close> and then of
  \<^verbatim>\<open>rest\<close>.
\<close>

fun encode :: "program \<Rightarrow> bytes" where
  "encode (Atom a) = atom_to_bytes a"
| "encode (PairP l r) = 0xFF # encode l @ encode r"

text \<open>
  Modelled from the spec: the "valid Programs" of the round-trip property of the codec
  in \<^verbatim>\<open>openapi/types.py\<close>: five prefix bytes hold a length of 34 bits, so every atom is
  shorter than \<open>2 ^ 34\<close> bytes.
\<close>

fun valid_program :: "program \<Rightarrow> bool" where
  "valid_program (Atom a) = (length a < 0x400000000)"
| "valid_program (PairP l r) = (valid_program l \<and> valid_program r)"

text \<open>
  Modelled from the spec: the number of prefix bytes \<^verbatim>\<open>decode\<close> in
  \<^verbatim>\<open>openapi/types.py\<close> reads off the leading byte, the inverse of \<open>prefix_marker\<close>.
\<close>

definition marker_len :: "byte \<Rightarrow> nat" where
  "marker_len b =
     (if b < 0xC0 then 1 else if b < 0xE0 then 2 else if b < 0xF0 then 3
      else if b < 0xF8 then 4 else 5)"

text \<open>
  Modelled from the spec: the length-prefix reader of \<^verbatim>\<open>decode\<close> in
  \<^verbatim>\<open>openapi/types.py\<close>, for a leading byte \<open>b\<close> from 0x80 and the input after it. It
  gives the length and the number of further prefix bytes, and fails "on truncated or
  invalid length-prefix data": a leading byte 0xFC to 0xFE (more than five prefix
  bytes), a prefix cut short, or a prefix with more bytes than the length needs (the
  data model demands that re-encoding gives the identical bytes).
\<close>

definition read_size :: "byte \<Rightarrow> bytes \<Rightarrow> (nat \<times> nat) option" where
  "read_size b inp =
     (if 0xFC \<le> b then None
      else
        let k = marker_len b
        in if length inp < k - 1 then None
           else
             let n = (unat b - prefix_marker k) * 256 ^ (k - 1) + be_value (take (k - 1) inp)
             in if prefix_len n \<noteq> k then None else Some (n, k - 1))"

text \<open>
  Modelled from the spec: the atom reader of \<^verbatim>\<open>decode\<close> in \<^verbatim>\<open>openapi/types.py\<close>, for
  a first byte \<open>b\<close> other than 0xFF and the input after it. It gives the atom and the
  number of bytes used after \<open>b\<close>. A prefixed atom that is empty or a single byte below
  0x80 has a shorter encoding and is refused, like a truncated one.
\<close>

definition atom_from_stream :: "byte \<Rightarrow> bytes \<Rightarrow> (bytes \<times> nat) option" where
  "atom_from_stream b inp =
     (if b = 0x80 then Some ([], 0)
      else if b < 0x80 then Some ([b], 0)
      else
        (case read_size b inp of
           None \<Rightarrow> None
         | Some (n, k) \<Rightarrow>
             let blob = take n (drop k inp)
             in if length blob \<noteq> n then None
                else if n = 0 \<or> (n = 1 \<and> hd blob < 0x80) then None
                else Some (blob, k + n)))"

text \<open>
  Modelled from the spec: the pending operations of \<^verbatim>\<open>decode\<close> in
  \<^verbatim>\<open>openapi/types.py\<close>, which "must be iterative or use an explicit stack": read one
  program, or join the two programs on top of the value stack into a pair.
\<close>

datatype op = OpReadSexp | OpCons

text \<open>
  Modelled from the spec: the loop of \<^verbatim>\<open>decode\<close> in \<^verbatim>\<open>openapi/types.py\<close> over an
  operation stack and a value stack. It ends when no operation is pending, with the
  program on top of the value stack and the input that is left; \<open>None\<close> is
  \<^verbatim>\<open>MalformedEncoding\<close>.
\<close>

function sexp_from_stream ::
  "op list \<Rightarrow> program list \<Rightarrow> bytes \<Rightarrow> (program \<times> bytes) option" where
  "sexp_from_stream [] vals inp = (case vals of [] \<Rightarrow> None | v # _ \<Rightarrow> Some (v, inp))"
| "sexp_from_stream (OpCons # ops) vals inp =
     (case vals of
        right # left # vs \<Rightarrow> sexp_from_stream ops (PairP left right # vs) inp
      | _ \<Rightarrow> None)"
| "sexp_from_stream (OpReadSexp # ops) vals inp =
     (case inp of
        [] \<Rightarrow> None
      | b # rest \<Rightarrow>
          if b = 0xFF then sexp_from_stream (OpReadSexp # OpReadSexp # OpCons # ops) vals rest
          else
            (case atom_from_stream b rest of
               None \<Rightarrow> None
             | Some (a, used) \<Rightarrow> sexp_from_stream ops (Atom a # vals) (drop used rest)))"
  by pat_completeness auto
termination
  by (relation "measure (\<lambda>(ops, vals, inp). 3 * length inp + length ops)") auto

text \<open>
  Modelled from the spec: \<^verbatim>\<open>decode(bytes) -> (Program, bytes_consumed)\<close> of
  \<^verbatim>\<open>openapi/types.py\<close>.
\<close>

definition decode :: "bytes \<Rightarrow> (program \<times> nat) option" where
  "decode bs =
     (case sexp_from_stream [OpReadSexp] [] bs of
        None \<Rightarrow> None
      | Some (p, rest) \<Rightarrow> Some (p, length bs - length rest))"

text \<open>
  Modelled from the spec: the "canonical byte strings" of the round-trip property of
  the codec in \<^verbatim>\<open>openapi/types.py\<close>: the well-formed streams, which \<open>decode\<close> reads to
  their last byte.
\<close>

definition canonical :: "bytes \<Rightarrow> bool" where
  "canonical bs = (case decode bs of None \<Rightarrow> False | Some (p, n) \<Rightarrow> n = length bs)"

text \<open>
  The value stack replayed without the input: \<open>rebuild ops vals ps\<close> runs the pending
  operations, taking each program to be read from the list \<open>ps\<close>, and succeeds when
  the list is used up exactly. It relates a run of the decoder to the programs it read.
\<close>

fun rebuild :: "op list \<Rightarrow> program list \<Rightarrow> program list \<Rightarrow> program option" where
  "rebuild [] vals ps = (case vals of [] \<Rightarrow> None | v # _ \<Rightarrow> if ps = [] then Some v else None)"
| "rebuild (OpCons # ops) vals ps =
     (case vals of
        right # left # vs \<Rightarrow> rebuild ops (PairP left right # vs) ps
      | _ \<Rightarrow> None)"
| "rebuild (OpReadSexp # ops) vals ps =
     (case ps of [] \<Rightarrow> None | q # qs \<Rightarrow> rebuild ops (q # vals) qs)"

section \<open>Sample data\<close>

text \<open>
  A small concrete world to run the gateway in: a hex reader, an extractor over decoded
  programs, two chains and a few coins. The owner queried throughout is the two-byte
  puzzle hash \<open>abcd\<close>.
\<close>

definition hex_digit_value :: "char \<Rightarrow> nat option" where
  "hex_digit_value c =
     (let n = of_char c :: nat
      in if 48 \<le> n \<and> n \<le> 57 then Some (n - 48)
         else if 97 \<le> n \<and> n \<le> 102 then Some (n - 87)
         else if 65 \<le> n \<and> n \<le> 70 then Some (n - 55)
         else None)"

fun unhex :: "string \<Rightarrow> bytes option" where
  "unhex [] = Some []"
| "unhex [c] = None"
| "unhex (c # d # cs) =
     (case (hex_digit_value c, hex_digit_value d, unhex cs) of
        (Some h, Some l, Some bs) \<Rightarrow> Some (of_nat (16 * h + l) # bs)
      | _ \<Rightarrow> None)"

definition sample_hexstr_to_bytes :: "string \<Rightarrow> exn + bytes" where
  "sample_hexstr_to_bytes s =
     (case unhex (if take 2 s = ''0x'' then drop 2 s else s) of
        None \<Rightarrow> Inl (ValueError ''non-hexadecimal number'')
      | Some bs \<Rightarrow> Inr bs)"

definition sample_fromhex :: "string \<Rightarrow> exn + program" where
  "sample_fromhex s =
     (case sample_hexstr_to_bytes s of
        Inl e \<Rightarrow> Inl e
      | Inr bs \<Rightarrow> (case decode bs of None \<Rightarrow> Inl MalformedEncoding | Some (p, n) \<Rightarrow> Inr p))"

record sample_nft =
  sn_launcher_id :: string
  sn_owner :: string

text \<open>
  The sample extractor: a two-element list \<open>(launcher owner)\<close> is an NFT, a bare pair of
  atoms is a shape it knows but cannot read, anything else is not an NFT.
\<close>

definition sample_get_nft_info :: "coin_json \<Rightarrow> program \<Rightarrow> program \<Rightarrow> exn + sample_nft" where
  "sample_get_nft_info c puzzle sol =
     (case puzzle of
        PairP (Atom l) (PairP (Atom ow) (Atom [])) \<Rightarrow>
          Inr \<lparr>sn_launcher_id = bytes_hex l, sn_owner = bytes_hex ow\<rparr>
      | PairP (Atom l) (Atom v) \<Rightarrow> Inl UnsupportedNFTVersion
      | _ \<Rightarrow> Inl NotAnNFT)"

definition sample_to_dict :: "sample_nft \<Rightarrow> json" where
  "sample_to_dict i = JObj [(''launcher_id'', JStr (sn_launcher_id i)), (''owner'', JStr (sn_owner i))]"

definition sample_lib :: "(coin_json, program, sample_nft, json) nft_lib" where
  "sample_lib =
     \<lparr>hexstr_to_bytes = sample_hexstr_to_bytes,
      Coin_from_json_dict = Inr,
      Program_fromhex = sample_fromhex,
      get_nft_info = sample_get_nft_info,
      nft_owner = sn_owner,
      nft_to_dict = sample_to_dict\<rparr>"

definition alice_pzh :: bytes where
  "alice_pzh = [0xAB, 0xCD]"

definition sample_dph :: "string \<Rightarrow> exn + string \<times> bytes" where
  "sample_dph a =
     (if a = ''xch1alice'' then Inr (''xch'', alice_pzh)
      else if a = ''txch1alice'' then Inr (''txch'', alice_pzh)
      else Inl (ValueError ''Invalid address''))"

definition mk_record :: "string \<Rightarrow> int \<Rightarrow> bool \<Rightarrow> nat \<Rightarrow> coin_record" where
  "mk_record parent amt sp height =
     \<lparr>coin = \<lparr>parent_coin_info = parent, puzzle_hash = ''0xabcd'', amount = amt\<rparr>,
      spent = sp, confirmed_block_index = height\<rparr>"

text \<open>Three coins of the owner on the main chain, the second one spent.\<close>

definition sample_records :: "coin_record list" where
  "sample_records =
     [mk_record ''0x01'' 100 False 11, mk_record ''0x02'' 7 True 12, mk_record ''0x03'' 250 False 13]"

text \<open>Five hinted coins, and what the node knows about the spend of each one's parent.\<close>

definition nft_records :: "coin_record list" where
  "nft_records =
     [mk_record ''0x01'' 1 False 11, mk_record ''0x02'' 1 False 12, mk_record ''0x03'' 1 False 13,
      mk_record ''0x04'' 1 False 14, mk_record ''0x05'' 1 False 15]"

definition mk_spend :: "string \<Rightarrow> exn + coin_spend" where
  "mk_spend puzzle = Inr \<lparr>puzzle_reveal = puzzle, solution = ''0x80''\<rparr>"

text \<open>
  The third coin's puzzle is the argument: \<open>0xff81a3ff82abcd80\<close> is an NFT of the owner,
  \<open>0xff81a3ff82ab\<close> is that encoding cut short, \<open>0x01\<close> is an atom and \<open>0xff0102\<close> a bare
  pair, and \<open>0xff81a3ff82123480\<close> an NFT of somebody else.
\<close>

definition sample_spends :: "(exn + coin_spend) \<Rightarrow> bytes \<Rightarrow> nat \<Rightarrow> exn + coin_spend" where
  "sample_spends third coin_id height =
     (if coin_id = [1] then mk_spend ''0xff81a1ff82abcd80''
      else if coin_id = [2] then mk_spend ''0xff81a2ff82abcd80''
      else if coin_id = [3] then third
      else if coin_id = [4] then mk_spend ''0xff81a4ff82abcd80''
      else if coin_id = [5] then mk_spend ''0xff81a5ff82abcd80''
      else Inl (RpcError ''not found''))"

text \<open>The batch \<^verbatim>\<open>list_nfts\<close> loops over on the main chain, by the third coin's puzzle.\<close>

definition sample_batch :: "string \<Rightarrow> (coin_record \<times> coin_spend) list" where
  "sample_batch third =
     zip nft_records
       (map (\<lambda>p. \<lparr>puzzle_reveal = p, solution = ''0x80''\<rparr>)
          [''0xff81a1ff82abcd80'', ''0xff81a2ff82abcd80'', third, ''0xff81a4ff82abcd80'',
           ''0xff81a5ff82abcd80''])"

text \<open>The dictionary of the owner's NFT with a given launcher id.\<close>

definition owned :: "string \<Rightarrow> json" where
  "owned l = JObj [(''launcher_id'', JStr l), (''owner'', JStr ''abcd'')]"

text \<open>A node that counts the calls that reach it through \<^verbatim>\<open>push_tx\<close> and \<^verbatim>\<open>raw_fetch\<close>.\<close>

definition sample_client ::
  "coin_record list \<Rightarrow> coin_record list \<Rightarrow> (bytes \<Rightarrow> nat \<Rightarrow> exn + coin_spend) \<Rightarrow> nat client" where
  "sample_client records hinted spends =
     \<lparr>get_coin_records_by_puzzle_hash = (\<lambda>pzh inc. if pzh = alice_pzh then Inr records else Inr []),
      get_coin_records_by_hint = (\<lambda>pzh inc h. if pzh = alice_pzh then Inr hinted else Inr []),
      get_puzzle_and_solution = spends,
      push_tx = (\<lambda>spb n. (Inr [(''status'', JStr ''SUCCESS'')], Suc n)),
      raw_fetch = (\<lambda>m p n. (Inr (JObj [(''method'', JStr m)]), Suc n))\<rparr>"

definition mainnet :: "(exn + coin_spend) \<Rightarrow> nat chain" where
  "mainnet third =
     \<lparr>chain_id = ''0x01'', network_name = ''mainnet'', network_prefix = ''xch'',
      client = sample_client sample_records nft_records (sample_spends third)\<rparr>"

text \<open>The test chain has another prefix and knows no coin of the owner.\<close>

definition testnet :: "nat chain" where
  "testnet =
     \<lparr>chain_id = ''0x02'', network_name = ''testnet10'', network_prefix = ''txch'',
      client = sample_client [] [] (\<lambda>coin_id height. Inl (RpcError ''not found''))\<rparr>"

definition sample_chains :: "string \<rightharpoonup> nat chain" where
  "sample_chains = [''0x01'' \<mapsto> mainnet (mk_spend ''0x01''), ''0x02'' \<mapsto> testnet]"

definition sample_start_heights :: "string \<rightharpoonup> nat" where
  "sample_start_heights = [''mainnet'' \<mapsto> 1000, ''testnet10'' \<mapsto> 0]"

definition sample_white_list :: "string set" where
  "sample_white_list = {''get_blockchain_state'', ''get_coin_record_by_name''}"

text \<open>What the owner's address yields on the main chain.\<close>

definition sample_utxos :: "utxo list" where
  "sample_utxos =
     [\<lparr>utxo_parent_coin_info = ''0x01'', utxo_puzzle_hash = ''0xabcd'', utxo_amount = ''100''\<rparr>,
      \<lparr>utxo_parent_coin_info = ''0x03'', utxo_puzzle_hash = ''0xabcd'', utxo_amount = ''250''\<rparr>]"

definition sample_nfts :: "json list" where
  "sample_nfts = [owned ''a1'', owned ''a2'', owned ''a4'', owned ''a5'']"

text \<open>An order in which the five calls of a request may finish: the third one first.\<close>

definition sample_order :: "nat list" where
  "sample_order = [2, 0, 4, 1, 3]"

section \<open>Properties of the gateway\<close>

subsection \<open>The loop of \<^verbatim>\<open>get_utxos\<close> and decimal strings\<close>

lemma utxos_loop_filter:
  "utxos_loop rows data = data @ map (\<lambda>r. coin_javascript_compat (coin r)) (filter (\<lambda>r. \<not> spent r) rows)"
  by (induction rows arbitrary: data) auto

lemma digit_value_digit_char: "d < 10 \<Longrightarrow> digit_value (digit_char d) = d"
proof -
  assume "d < 10"
  then have "d \<in> {0,1,2,3,4,5,6,7,8,9}" by auto
  then show ?thesis by (auto simp: digit_value_def digit_char_def)
qed

lemma digit_char_not_minus: "d < 10 \<Longrightarrow> digit_char d \<noteq> CHR ''-''"
proof -
  assume "d < 10"
  then have "d \<in> {0,1,2,3,4,5,6,7,8,9}" by auto
  then show ?thesis by (auto simp: digit_char_def)
qed

lemma decimal_value_snoc: "decimal_value (s @ [c]) = 10 * decimal_value s + digit_value c"
  by (simp add: decimal_value_def)

lemma decimal_value_str_nat: "decimal_value (str_nat n) = n"
proof (induction n rule: str_nat.induct)
  case (1 n)
  show ?case
  proof (cases "n < 10")
    case True
    then show ?thesis
      by (subst str_nat.simps) (simp add: decimal_value_def digit_value_digit_char)
  next
    case False
    with 1 show ?thesis
      by (subst str_nat.simps) (simp add: decimal_value_snoc digit_value_digit_char)
  qed
qed

lemma str_nat_hd: "\<exists>d ds. str_nat n = digit_char d # ds \<and> d < 10"
proof (induction n rule: str_nat.induct)
  case (1 n)
  show ?case
  proof (cases "n < 10")
    case True
    then show ?thesis by (subst str_nat.simps) auto
  next
    case False
    with 1 obtain d ds where "str_nat (n div 10) = digit_char d # ds" "d < 10" by auto
    with False show ?thesis by (subst str_nat.simps) auto
  qed
qed

lemma int_of_decimal_str_int: "int_of_decimal (str_int i) = i"
proof (cases "i < 0")
  case True
  then show ?thesis by (simp add: int_of_decimal_def str_int_def decimal_value_str_nat)
next
  case False
  obtain d ds where h: "str_nat (nat i) = digit_char d # ds" "d < 10"
    using str_nat_hd by blast
  have "decimal_value (digit_char d # ds) = nat i"
    using decimal_value_str_nat [of "nat i"] h by simp
  with False h show ?thesis
    by (simp add: int_of_decimal_def str_int_def digit_char_not_minus)
qed


subsection \<open>The loop of \<^verbatim>\<open>list_nfts\<close>\<close>

lemma nft_loop_log: "snd (nft_loop L pzh batch data lg) = lg"
  by (induction batch arbitrary: data) (auto split: step.splits)

lemma list_nfts_log: "snd (list_nfts dph L sh fin address ch lg) = lg"
  by (simp add: list_nfts_def nft_loop_log split: sum.splits prod.splits)

lemma nft_item_deserialised:
  "deserialises L item \<Longrightarrow>
     nft_item L pzh item =
       (case extraction L item of
          Some (Inr i) \<Rightarrow> if nft_owner L i \<noteq> bytes_hex pzh then Continue
                          else Append (nft_to_dict L i)
        | _ \<Rightarrow> Continue)"
  by (cases item) (auto simp: deserialises_def nft_item_def extraction_def split: sum.splits)

lemma nft_item_no_raise: "deserialises L item \<Longrightarrow> nft_item L pzh item \<noteq> Raise e"
  by (auto simp: nft_item_deserialised split: option.splits sum.splits)

lemma nft_item_raises: "\<not> deserialises L item \<Longrightarrow> \<exists>e. nft_item L pzh item = Raise e"
  by (cases item) (auto simp: deserialises_def nft_item_def split: sum.splits)

lemma nft_loop_listed:
  "list_all (deserialises L) batch \<Longrightarrow>
     nft_loop L pzh batch data lg = (Inr (data @ concat (map (listed L pzh) batch)), lg)"
proof (induction batch arbitrary: data)
  case Nil
  then show ?case by simp
next
  case (Cons item batch)
  then have d: "deserialises L item" and rest: "list_all (deserialises L) batch" by simp_all
  show ?case
  proof (cases "nft_item L pzh item")
    case (Raise e)
    with nft_item_no_raise [OF d] show ?thesis by simp
  next
    case Continue
    then show ?thesis using Cons.IH [OF rest] by (simp add: listed_def)
  next
    case (Append d)
    then show ?thesis using Cons.IH [OF rest] by (simp add: listed_def)
  qed
qed

text \<open>
  What the loop does achieve: over coins that deserialise it raises nothing, a failed
  extraction or a foreign owner adds nothing, and a coin of the owner adds its dictionary.
\<close>

lemma listed_deserialised:
  "deserialises L item \<Longrightarrow>
     listed L pzh item =
       (case extraction L item of
          Some (Inr i) \<Rightarrow> if nft_owner L i = bytes_hex pzh then [nft_to_dict L i] else []
        | _ \<Rightarrow> [])"
  by (auto simp: listed_def nft_item_deserialised split: option.splits sum.splits)

lemma list_nfts_deserialised:
  assumes "nft_batch dph L sh fin address ch = Inr (pzh, batch)"
    and "list_all (deserialises L) batch"
  shows "list_nfts dph L sh fin address ch lg = (Inr (concat (map (listed L pzh) batch)), lg)"
  using assms by (simp add: list_nfts_def nft_loop_listed)

lemma nft_loop_owner:
  "nft_loop L pzh batch data lg = (Inr out, lg') \<Longrightarrow> d \<in> set out \<Longrightarrow>
     d \<in> set data \<or>
     (\<exists>item \<in> set batch. \<exists>i. extraction L item = Some (Inr i) \<and>
        nft_owner L i = bytes_hex pzh \<and> d = nft_to_dict L i)"
proof (induction batch arbitrary: data)
  case Nil
  then show ?case by simp
next
  case (Cons item batch)
  show ?case
  proof (cases "nft_item L pzh item")
    case (Raise e)
    with Cons.prems show ?thesis by simp
  next
    case Continue
    with Cons.prems have "nft_loop L pzh batch data lg = (Inr out, lg')" by simp
    from Cons.IH [OF this Cons.prems(2)] show ?thesis by auto
  next
    case (Append d')
    with Cons.prems have run: "nft_loop L pzh batch (data @ [d']) lg = (Inr out, lg')" by simp
    have des: "deserialises L item"
      using Append nft_item_raises [of L item pzh] by auto
    from Append obtain i where "extraction L item = Some (Inr i)"
      "nft_owner L i = bytes_hex pzh" "d' = nft_to_dict L i"
      by (auto simp: nft_item_deserialised [OF des] split: option.splits sum.splits if_splits)
    with Cons.IH [OF run Cons.prems(2)] show ?thesis by auto
  qed
qed

lemma first_failure_Some: "first_failure finished rs = Some e \<Longrightarrow> Inl e \<in> set rs"
proof (induction finished)
  case Nil
  then show ?case by simp
next
  case (Cons i finished)
  show ?case
  proof (cases "i < length rs")
    case True
    show ?thesis
    proof (cases "rs ! i")
      case (Inl e')
      with True Cons.prems have "e' = e" by simp
      with Inl True show ?thesis by (metis nth_mem)
    next
      case (Inr v)
      with True Cons show ?thesis by simp
    qed
  next
    case False
    with Cons show ?thesis by simp
  qed
qed

lemma first_failure_none: "list_all (\<lambda>r. \<not> isl r) rs \<Longrightarrow> first_failure finished rs = None"
proof (induction finished)
  case Nil
  then show ?case by simp
next
  case (Cons i finished)
  show ?case
  proof (cases "i < length rs")
    case True
    with Cons.prems have "\<not> isl (rs ! i)" by (simp add: list_all_length)
    then obtain v where "rs ! i = Inr v" by (cases "rs ! i") auto
    with True Cons show ?thesis by simp
  next
    case False
    with Cons show ?thesis by simp
  qed
qed

lemma in_order_Inl: "in_order rs = Inl e \<Longrightarrow> Inl e \<in> set rs"
  by (induction rs) (auto split: sum.splits)

lemma in_order_fails: "Inl e \<in> set rs \<Longrightarrow> \<exists>e'. in_order rs = Inl e'"
  by (induction rs) (auto split: sum.splits)

lemma in_order_Inr: "in_order rs = Inr vs \<Longrightarrow> rs = map Inr vs"
  by (induction rs arbitrary: vs) (auto split: sum.splits)

lemma gather_Inl: "gather finished rs = Inl e \<Longrightarrow> Inl e \<in> set rs"
  by (auto simp: gather_def split: option.splits dest: first_failure_Some in_order_Inl)

lemma gather_fails: "Inl e \<in> set rs \<Longrightarrow> \<exists>e'. gather finished rs = Inl e'"
  by (auto simp: gather_def split: option.splits dest: in_order_fails)

lemma gather_Inr: "gather finished rs = Inr vs \<Longrightarrow> rs = map Inr vs"
  by (auto simp: gather_def split: option.splits dest: in_order_Inr)

text \<open>Which failure is raised depends on the order of finishing, not on the list.\<close>

lemma gather_by_order:
  "gather [1, 0] [Inl (RpcError ''a''), Inl (RpcError ''b'') :: exn + nat] = Inl (RpcError ''b'')"
  "gather [0, 1] [Inl (RpcError ''a''), Inl (RpcError ''b'') :: exn + nat] = Inl (RpcError ''a'')"
  by (simp_all add: gather_def)

lemma puzzle_calls_plain: "puzzle_calls (plain_non_match L) crs = puzzle_calls L crs"
  by (induction crs) (auto simp: plain_non_match_def split: sum.splits)

lemma nft_item_plain: "nft_item (plain_non_match L) pzh item = nft_item L pzh item"
  by (cases item) (auto simp: nft_item_def plain_non_match_def split: sum.splits)

lemma nft_loop_plain: "nft_loop (plain_non_match L) pzh batch data lg = nft_loop L pzh batch data lg"
  by (induction batch arbitrary: data) (auto simp: nft_item_plain split: step.splits)

lemma nft_batch_plain: "nft_batch dph (plain_non_match L) sh fin address ch = nft_batch dph L sh fin address ch"
  by (simp add: nft_batch_def puzzle_calls_plain split: sum.splits option.splits)

lemma nft_item_extraction_fails:
  "extraction L item = Some (Inl e) \<Longrightarrow> nft_item L pzh item = Continue"
  by (cases item) (auto simp: nft_item_def extraction_def split: sum.splits)

subsection \<open>The cache decorator\<close>

lemma cached_hit:
  "cache_get c (key_builder kwargs) now = Some v \<Longrightarrow>
     cached ttl key_builder f kwargs now c s = (Inr v, c, s)"
  by (simp add: cached_def)

lemma cached_miss:
  "cache_get c (key_builder kwargs) now = None \<Longrightarrow> f kwargs s = (Inr v, s') \<Longrightarrow>
     cached ttl key_builder f kwargs now c s
       = (Inr v, c(key_builder kwargs \<mapsto> (v, now + ttl)), s')"
  by (simp add: cached_def)

lemma cached_miss_result:
  assumes "cache_get c (key_builder kwargs) now = None"
    and "cached ttl key_builder f kwargs now c s = (Inr v, c', s')"
  shows "c' = c(key_builder kwargs \<mapsto> (v, now + ttl))"
  using assms by (auto simp: cached_def split: sum.splits prod.splits)

lemma cache_get_stored:
  "cache_get (c(key \<mapsto> (v, now + ttl))) key t = (if t < now + ttl then Some v else None)"
  by (simp add: cache_get_def)

lemma cached_again:
  assumes miss: "cache_get c (key_builder k1) now = None"
    and first: "cached ttl key_builder f k1 now c s = (Inr v, c', s')"
    and same: "key_builder k2 = key_builder k1"
    and live: "t < now + ttl"
  shows "cached ttl key_builder g k2 t c' s'' = (Inr v, c', s'')"
proof -
  have "c' = c(key_builder k1 \<mapsto> (v, now + ttl))"
    using miss first by (rule cached_miss_result)
  then have "cache_get c' (key_builder k2) t = Some v"
    using same live by (simp add: cache_get_stored)
  then show ?thesis by (rule cached_hit)
qed

subsection \<open>Unfolding the sample data\<close>

lemmas sample_world = sample_dph_def sample_lib_def sample_start_heights_def mainnet_def
  testnet_def sample_chains_def sample_client_def alice_pzh_def sample_records_def
  nft_records_def mk_record_def sample_spends_def mk_spend_def sample_white_list_def

lemmas sample_codec = sample_hexstr_to_bytes_def sample_fromhex_def sample_get_nft_info_def
  sample_to_dict_def hex_digit_value_def decode_def atom_from_stream_def read_size_def
  marker_len_def prefix_marker_def prefix_len_def bytes_hex_def byte_hex_def digit_char_def

lemma sample_address: "decode_address sample_dph ''xch1alice'' (network_prefix (mainnet third)) = Inr alice_pzh"
  by (simp add: decode_address_def sample_dph_def mainnet_def)

lemma sample_calls:
  "puzzle_calls sample_lib nft_records = Inr [([1], 11), ([2], 12), ([3], 13), ([4], 14), ([5], 15)]"
  by (simp add: sample_lib_def nft_records_def mk_record_def sample_hexstr_to_bytes_def
      hex_digit_value_def)

lemma sample_nft_batch:
  "nft_batch sample_dph sample_lib sample_start_heights fin ''xch1alice''
     (mainnet (mk_spend third)) = Inr (alice_pzh, sample_batch third)"
  by (simp add: nft_batch_def decode_address_def sample_world sample_batch_def
      sample_hexstr_to_bytes_def hex_digit_value_def gather_def first_failure_none)

lemma deserialises_sample:
  "deserialises sample_lib (cr, \<lparr>puzzle_reveal = p, solution = ''0x80''\<rparr>)
     = (\<not> isl (sample_fromhex p))"
  by (simp add: deserialises_def sample_lib_def sample_codec)

lemma sample_nft_item:
  "nft_item sample_lib alice_pzh (cr, \<lparr>puzzle_reveal = ''0xff81a1ff82abcd80'', solution = ''0x80''\<rparr>) = Append (owned ''a1'')"
  "nft_item sample_lib alice_pzh (cr, \<lparr>puzzle_reveal = ''0xff81a2ff82abcd80'', solution = ''0x80''\<rparr>) = Append (owned ''a2'')"
  "nft_item sample_lib alice_pzh (cr, \<lparr>puzzle_reveal = ''0xff81a3ff82abcd80'', solution = ''0x80''\<rparr>) = Append (owned ''a3'')"
  "nft_item sample_lib alice_pzh (cr, \<lparr>puzzle_reveal = ''0xff81a4ff82abcd80'', solution = ''0x80''\<rparr>) = Append (owned ''a4'')"
  "nft_item sample_lib alice_pzh (cr, \<lparr>puzzle_reveal = ''0xff81a5ff82abcd80'', solution = ''0x80''\<rparr>) = Append (owned ''a5'')"
  "nft_item sample_lib alice_pzh (cr, \<lparr>puzzle_reveal = ''0xff81a3ff82ab'', solution = ''0x80''\<rparr>) = Raise MalformedEncoding"
  "nft_item sample_lib alice_pzh (cr, \<lparr>puzzle_reveal = ''0x01'', solution = ''0x80''\<rparr>) = Continue"
  "nft_item sample_lib alice_pzh (cr, \<lparr>puzzle_reveal = ''0xff0102'', solution = ''0x80''\<rparr>) = Continue"
  "nft_item sample_lib alice_pzh (cr, \<lparr>puzzle_reveal = ''0xff81a3ff82123480'', solution = ''0x80''\<rparr>) = Continue"
  by (simp_all add: nft_item_def sample_lib_def sample_codec alice_pzh_def owned_def)

lemma sample_list_nfts:
  "list_nfts sample_dph sample_lib sample_start_heights fin ''xch1alice'' (mainnet (mk_spend third)) lg
     = nft_loop sample_lib alice_pzh (sample_batch third) [] lg"
  by (simp add: list_nfts_def sample_nft_batch)

lemma sample_extraction:
  "extraction sample_lib (sample_batch ''0xff0102'' ! 2) = Some (Inl UnsupportedNFTVersion)"
  "extraction sample_lib (sample_batch ''0x01'' ! 2) = Some (Inl NotAnNFT)"
  "extraction sample_lib (sample_batch ''0xff81a3ff82123480'' ! 2)
     = Some (Inr \<lparr>sn_launcher_id = ''a3'', sn_owner = ''1234''\<rparr>)"
  by (simp_all add: sample_batch_def nft_records_def extraction_def sample_lib_def sample_codec)

lemma sample_listing:
  "third \<in> {''0x01'', ''0xff0102'', ''0xff81a3ff82123480''} \<Longrightarrow>
   list_nfts sample_dph sample_lib sample_start_heights fin ''xch1alice'' (mainnet (mk_spend third)) []
     = (Inr [owned ''a1'', owned ''a2'', owned ''a4'', owned ''a5''], [])"
  by (auto simp: sample_list_nfts sample_batch_def nft_records_def sample_nft_item)

lemma sample_get_utxos:
  "get_utxos sample_dph ''xch1alice'' (mainnet third) = Inr sample_utxos"
  by (simp add: get_utxos_def decode_address_def sample_world sample_utxos_def
      coin_javascript_compat_def str_int_def str_nat.simps digit_char_def)

lemma sample_query_balance:
  "query_balance sample_dph ''xch1alice'' (mainnet third) = Inr \<lparr>balance_amount = 350\<rparr>"
  by (simp add: query_balance_def decode_address_def sample_world)

lemma sample_list_nfts_plain:
  "list_nfts sample_dph sample_lib sample_start_heights fin ''xch1alice'' (mainnet (mk_spend ''0x01'')) []
     = (Inr sample_nfts, [])"
  by (simp add: sample_listing sample_nfts_def)

lemma sample_testnet:
  "get_utxos sample_dph ''xch1alice'' testnet = Inl (HTTPException 400 ''Invalid Address'')"
  "query_balance sample_dph ''xch1alice'' testnet = Inl (HTTPException 400 ''Invalid Address'')"
  "list_nfts sample_dph sample_lib sample_start_heights fin ''xch1alice'' testnet []
     = (Inl (HTTPException 400 ''Invalid Address''), [])"
  by (simp_all add: get_utxos_def query_balance_def list_nfts_def nft_batch_def
      decode_address_def sample_dph_def testnet_def)

lemma sample_chain_lookup:
  "sample_chains ''0x01'' = Some (mainnet (mk_spend ''0x01''))"
  "sample_chains ''0x02'' = Some testnet"
  by (simp_all add: sample_chains_def)

section \<open>Properties of the codec\<close>

lemma length_be_bytes: "length (be_bytes k n) = k"
  by (induction k arbitrary: n) auto

lemma unat_of_nat_byte: "x < 256 \<Longrightarrow> unat (of_nat x :: byte) = x"
  by (simp add: unat_of_nat)

lemma be_value_be_bytes: "n < 256 ^ k \<Longrightarrow> be_value (be_bytes k n) = n"
proof (induction k arbitrary: n)
  case 0
  then show ?case by simp
next
  case (Suc k)
  have q: "n div 256 ^ k < 256"
    using Suc.prems by (simp add: less_mult_imp_div_less mult.commute)
  have "be_value (be_bytes k (n mod 256 ^ k)) = n mod 256 ^ k"
    by (rule Suc.IH) simp
  with q show ?case
    by (simp add: length_be_bytes unat_of_nat_byte div_mult_mod_eq)
qed

lemma be_value_bound: "be_value bs < 256 ^ length bs"
proof (induction bs)
  case Nil
  then show ?case by simp
next
  case (Cons b bs)
  have "unat b < 256" using unsigned_less [of b, where ?'a = nat] by simp
  then have "Suc (unat b) \<le> 256" by simp
  then have le: "Suc (unat b) * 256 ^ length bs \<le> 256 * 256 ^ length bs"
    by (rule mult_le_mono1)
  have lt: "unat b * 256 ^ length bs + be_value bs < Suc (unat b) * 256 ^ length bs"
    using Cons by simp
  show ?case using less_le_trans [OF lt le] by simp
qed

lemma be_bytes_be_value: "be_bytes (length bs) (be_value bs) = bs"
proof (induction bs)
  case Nil
  then show ?case by simp
next
  case (Cons b bs)
  have lt: "be_value bs < 256 ^ length bs" by (rule be_value_bound)
  then have d: "(unat b * 256 ^ length bs + be_value bs) div 256 ^ length bs = unat b"
    by simp
  have m: "(unat b * 256 ^ length bs + be_value bs) mod 256 ^ length bs = be_value bs"
    using lt by simp
  show ?case using Cons lt by (simp add: d)
qed


lemma prefix_len_cases:
  assumes "n < 0x400000000"
  obtains "prefix_len n = 1" "n < 0x40"
  | "prefix_len n = 2" "0x40 \<le> n" "n < 0x2000"
  | "prefix_len n = 3" "0x2000 \<le> n" "n < 0x100000"
  | "prefix_len n = 4" "0x100000 \<le> n" "n < 0x8000000"
  | "prefix_len n = 5" "0x8000000 \<le> n" "n < 0x400000000"
proof -
  consider "n < 0x40" | "0x40 \<le> n \<and> n < 0x2000" | "0x2000 \<le> n \<and> n < 0x100000"
    | "0x100000 \<le> n \<and> n < 0x8000000" | "0x8000000 \<le> n \<and> n < 0x400000000"
    using assms by linarith
  then show thesis
  proof cases
    case 1 then show ?thesis using that(1) by (simp add: prefix_len_def)
  next
    case 2 then show ?thesis using that(2) by (simp add: prefix_len_def)
  next
    case 3 then show ?thesis using that(3) by (simp add: prefix_len_def)
  next
    case 4 then show ?thesis using that(4) by (simp add: prefix_len_def)
  next
    case 5 then show ?thesis using that(5) by (simp add: prefix_len_def)
  qed
qed

lemma first_byte:
  assumes "q < g" "m + g \<le> 256"
  shows "unat (of_nat (m + q) :: byte) = m + q"
  using assms unat_of_nat_byte [of "m + q"] by linarith

lemma byte_facts:
  assumes "unat (b :: byte) = u"
  shows "(b < 0x80) = (u < 0x80)" "(b < 0xC0) = (u < 0xC0)" "(b < 0xE0) = (u < 0xE0)"
    "(b < 0xF0) = (u < 0xF0)" "(b < 0xF8) = (u < 0xF8)" "(0xFC \<le> b) = (0xFC \<le> u)"
    "(b = 0xFF) = (u = 0xFF)" "(b = 0x80) = (u = 0x80)"
  using assms by (auto simp: word_less_nat_alt word_le_nat_alt word_unat_eq_iff)

lemma marker_facts:
  assumes u: "unat (b :: byte) = m + q" and q: "q < g"
    and mk: "(m, g, k) \<in> {(0x80, 0x40, 1), (0xC0, 0x20, 2), (0xE0, 0x10, 3), (0xF0, 0x08, 4),
                          (0xF8, 0x04, 5)}"
  shows "marker_len b = k" "\<not> 0xFC \<le> b" "b \<noteq> 0xFF" "\<not> b < 0x80" "prefix_marker k = m"
    "(b = 0x80) = (k = 1 \<and> q = 0)"
  using q mk unfolding marker_len_def byte_facts [OF u] prefix_marker_def by auto

lemma read_size_size_prefix:
  assumes n: "0 < n" "n < 0x400000000"
  shows "\<exists>b ps. size_prefix n = b # ps \<and> read_size b (ps @ xs) = Some (n, length ps)
           \<and> b \<noteq> 0xFF \<and> b \<noteq> 0x80 \<and> \<not> b < 0x80"
proof -
  define k where "k = prefix_len n"
  define q where "q = n div 256 ^ (k - 1)"
  define r where "r = n mod 256 ^ (k - 1)"
  define b :: byte where "b = of_nat (prefix_marker k + q)"
  define ps where "ps = be_bytes (k - 1) r"
  have sp: "size_prefix n = b # ps"
    by (simp add: size_prefix_def Let_def b_def ps_def q_def r_def k_def)
  have len: "length ps = k - 1" by (simp add: ps_def length_be_bytes)
  have bv: "be_value (take (k - 1) (ps @ xs)) = r"
    by (simp add: ps_def r_def length_be_bytes be_value_be_bytes)
  have recompose: "q * 256 ^ (k - 1) + r = n" by (simp add: q_def r_def div_mult_mod_eq)
  have "\<exists>m g. unat b = m + q \<and> q < g \<and> (k = 1 \<longrightarrow> 0 < q) \<and>
          (m, g, k) \<in> {(0x80, 0x40, 1), (0xC0, 0x20, 2), (0xE0, 0x10, 3), (0xF0, 0x08, 4),
                         (0xF8, 0x04, 5)}"
  proof (rule prefix_len_cases [OF n(2)])
    assume k: "prefix_len n = 1" and "n < 0x40"
    then have q: "q < 0x40" by (simp add: q_def k_def)
    have "unat b = 0x80 + q"
      using first_byte [OF q, of "0x80"] k by (simp add: b_def k_def prefix_marker_def del: of_nat_add)
    with q k n(1) show ?thesis by (auto simp: k_def q_def)
  next
    assume k: "prefix_len n = 2" and r: "0x40 \<le> n" "n < 0x2000"
    then have q: "q < 0x20" by (simp add: q_def k_def)
    have "unat b = 0xC0 + q"
      using first_byte [OF q, of "0xC0"] k by (simp add: b_def k_def prefix_marker_def del: of_nat_add)
    with q k show ?thesis by (auto simp: k_def)
  next
    assume k: "prefix_len n = 3" and r: "0x2000 \<le> n" "n < 0x100000"
    then have q: "q < 0x10" by (simp add: q_def k_def)
    have "unat b = 0xE0 + q"
      using first_byte [OF q, of "0xE0"] k by (simp add: b_def k_def prefix_marker_def del: of_nat_add)
    with q k show ?thesis by (auto simp: k_def)
  next
    assume k: "prefix_len n = 4" and r: "0x100000 \<le> n" "n < 0x8000000"
    then have q: "q < 0x08" by (simp add: q_def k_def)
    have "unat b = 0xF0 + q"
      using first_byte [OF q, of "0xF0"] k by (simp add: b_def k_def prefix_marker_def del: of_nat_add)
    with q k show ?thesis by (auto simp: k_def)
  next
    assume k: "prefix_len n = 5" and r: "0x8000000 \<le> n" "n < 0x400000000"
    then have q: "q < 0x04" by (simp add: q_def k_def)
    have "unat b = 0xF8 + q"
      using first_byte [OF q, of "0xF8"] k by (simp add: b_def k_def prefix_marker_def del: of_nat_add)
    with q k show ?thesis by (auto simp: k_def)
  qed
  then obtain m g where u: "unat b = m + q" and q: "q < g" and q0: "k = 1 \<longrightarrow> 0 < q"
    and mk: "(m, g, k) \<in> {(0x80, 0x40, 1), (0xC0, 0x20, 2), (0xE0, 0x10, 3), (0xF0, 0x08, 4),
                          (0xF8, 0x04, 5)}"
    by blast
  note mf = marker_facts [OF u q mk]
  have "(unat b - prefix_marker (marker_len b)) * 256 ^ (marker_len b - 1)
          + be_value (take (marker_len b - 1) (ps @ xs)) = n"
    unfolding mf(1) mf(5) u bv using recompose by simp
  moreover have "prefix_len n = marker_len b" by (simp add: mf(1) k_def)
  ultimately have "read_size b (ps @ xs) = Some (n, length ps)"
    unfolding read_size_def Let_def using mf(2) by (simp add: len mf(1))
  moreover have "b \<noteq> 0x80" using mf(6) q0 by auto
  ultimately show ?thesis using sp mf(3,4) by blast
qed


lemma atom_from_stream_atom_to_bytes:
  assumes "length a < 0x400000000"
  shows "\<exists>b ps. atom_to_bytes a = b # ps \<and> b \<noteq> 0xFF \<and>
           atom_from_stream b (ps @ xs) = Some (a, length ps)"
proof (cases "a = [] \<or> (length a = 1 \<and> hd a < 0x80)")
  case True
  then show ?thesis
  proof
    assume "a = []"
    then show ?thesis by (simp add: atom_to_bytes_def atom_from_stream_def)
  next
    assume h: "length a = 1 \<and> hd a < 0x80"
    then obtain x where a: "a = [x]" by (cases a) auto
    with h have x: "x < 0x80" by simp
    then have "x \<noteq> 0xFF" "x \<noteq> 0x80" by auto
    with a x show ?thesis by (simp add: atom_to_bytes_def atom_from_stream_def)
  qed
next
  case False
  then have pos: "0 < length a" by simp
  obtain b ps where sp: "size_prefix (length a) = b # ps"
    and rs: "read_size b (ps @ a @ xs) = Some (length a, length ps)"
    and b: "b \<noteq> 0xFF" "b \<noteq> 0x80" "\<not> b < 0x80"
    using read_size_size_prefix [OF pos assms, of "a @ xs"] by blast
  have enc: "atom_to_bytes a = b # (ps @ a)"
    using False sp by (simp add: atom_to_bytes_def)
  have "atom_from_stream b ((ps @ a) @ xs) = Some (a, length (ps @ a))"
    using False b rs by (simp add: atom_from_stream_def)
  with enc b(1) show ?thesis by blast
qed

lemma sexp_from_stream_encode:
  "valid_program p \<Longrightarrow>
     sexp_from_stream (OpReadSexp # ops) vals (encode p @ rest) = sexp_from_stream ops (p # vals) rest"
proof (induction p arbitrary: ops vals rest)
  case (Atom a)
  then have "length a < 0x400000000" by simp
  then obtain b ps where "atom_to_bytes a = b # ps" "b \<noteq> 0xFF"
    "atom_from_stream b (ps @ rest) = Some (a, length ps)"
    using atom_from_stream_atom_to_bytes by blast
  then show ?case by simp
next
  case (PairP l r)
  then show ?case by simp
qed

lemma marker_le: "\<not> (b :: byte) < 0x80 \<Longrightarrow> prefix_marker (marker_len b) \<le> unat b"
  by (auto simp: marker_len_def prefix_marker_def word_less_nat_alt)

lemma read_size_is_size_prefix:
  assumes rs: "read_size b inp = Some (n, k)" and b: "\<not> b < 0x80"
  shows "size_prefix n = b # take k inp \<and> k \<le> length inp"
proof -
  define k' where "k' = marker_len b"
  define v where "v = be_value (take (k' - 1) inp)"
  from rs have len: "k' - 1 \<le> length inp" and k: "k = k' - 1"
    and n: "n = (unat b - prefix_marker k') * 256 ^ (k' - 1) + v"
    and pl: "prefix_len n = k'"
    by (auto simp: read_size_def Let_def k'_def v_def split: if_splits)
  have lt: "v < 256 ^ (k' - 1)"
    using be_value_bound [of "take (k' - 1) inp"] len by (simp add: v_def)
  have d: "n div 256 ^ (k' - 1) = unat b - prefix_marker k'" using n lt by simp
  have m: "n mod 256 ^ (k' - 1) = v" using n lt by simp
  have bb: "be_bytes (k' - 1) v = take (k' - 1) inp"
    using be_bytes_be_value [of "take (k' - 1) inp"] len by (simp add: v_def)
  have "prefix_marker k' + (unat b - prefix_marker k') = unat b"
    using marker_le [OF b] by (simp add: k'_def)
  then have ob: "(of_nat (prefix_marker k' + (unat b - prefix_marker k')) :: byte) = b" by simp
  have "size_prefix n = b # take (k' - 1) inp"
    unfolding size_prefix_def Let_def pl d m bb ob ..
  then show ?thesis using len k by simp
qed

lemma atom_from_stream_bytes:
  assumes "atom_from_stream b inp = Some (a, used)"
  shows "atom_to_bytes a = b # take used inp \<and> used \<le> length inp"
proof (cases "b = 0x80 \<or> b < 0x80")
  case True
  with assms show ?thesis
    by (auto simp: atom_from_stream_def atom_to_bytes_def split: if_splits)
next
  case False
  with assms obtain n k where rs: "read_size b inp = Some (n, k)"
    and a: "a = take n (drop k inp)" and la: "length a = n" and used: "used = k + n"
    and ne: "n \<noteq> 0" "\<not> (n = 1 \<and> hd a < 0x80)"
    by (auto simp: atom_from_stream_def Let_def split: option.splits if_splits)
  from False have "\<not> b < 0x80" by simp
  from read_size_is_size_prefix [OF rs this]
  have sp: "size_prefix n = b # take k inp" and kl: "k \<le> length inp" by simp_all
  have "a \<noteq> []" using la ne by auto
  then have "atom_to_bytes a = size_prefix n @ a"
    using la ne by (auto simp: atom_to_bytes_def)
  moreover have "take (k + n) inp = take k inp @ take n (drop k inp)"
    by (simp add: take_add)
  moreover have "k + n \<le> length inp" using la a kl by auto
  ultimately show ?thesis using sp a used by simp
qed

lemma sexp_from_stream_rebuild:
  "sexp_from_stream ops vals inp = Some (p, rest) \<Longrightarrow>
     \<exists>ps. inp = concat (map encode ps) @ rest \<and> rebuild ops vals ps = Some p"
proof (induction ops vals inp rule: sexp_from_stream.induct)
  case (1 vals inp)
  then have "inp = concat (map encode []) @ rest \<and> rebuild [] vals [] = Some p"
    by (auto split: list.splits)
  then show ?case by blast
next
  case (2 ops vals inp)
  then show ?case by (auto split: list.splits)
next
  case (3 ops vals inp)
  from "3.prems" obtain b rest0 where inp: "inp = b # rest0" by (cases inp) auto
  show ?case
  proof (cases "b = 0xFF")
    case True
    with "3.prems" inp
    have "sexp_from_stream (OpReadSexp # OpReadSexp # OpCons # ops) vals rest0 = Some (p, rest)"
      by simp
    from "3.IH"(1) [OF inp True this] obtain ps
      where r0: "rest0 = concat (map encode ps) @ rest"
        and rb: "rebuild (OpReadSexp # OpReadSexp # OpCons # ops) vals ps = Some p" by blast
    from rb obtain l r qs where ps: "ps = l # r # qs"
      and rb': "rebuild ops (PairP l r # vals) qs = Some p"
      by (auto split: list.splits)
    have "inp = concat (map encode (PairP l r # qs)) @ rest"
      using inp True r0 ps by simp
    moreover have "rebuild (OpReadSexp # ops) vals (PairP l r # qs) = Some p"
      using rb' by simp
    ultimately show ?thesis by blast
  next
    case False
    with "3.prems" inp obtain a used where af: "atom_from_stream b rest0 = Some (a, used)"
      and run: "sexp_from_stream ops (Atom a # vals) (drop used rest0) = Some (p, rest)"
      by (auto split: option.splits)
    from "3.IH"(2) [OF inp False af refl run] obtain ps
      where r0: "drop used rest0 = concat (map encode ps) @ rest"
        and rb: "rebuild ops (Atom a # vals) ps = Some p" by blast
    from atom_from_stream_bytes [OF af]
    have ab: "atom_to_bytes a = b # take used rest0" by simp
    have "inp = atom_to_bytes a @ drop used rest0"
      using inp ab by simp
    then have "inp = concat (map encode (Atom a # ps)) @ rest"
      using r0 by simp
    moreover have "rebuild (OpReadSexp # ops) vals (Atom a # ps) = Some p"
      using rb by simp
    ultimately show ?thesis by blast
  qed
qed

lemma decode_encode: "valid_program p \<Longrightarrow> decode (encode p @ rest) = Some (p, length (encode p))"
  using sexp_from_stream_encode [of p "[]" "[]" rest] by (simp add: decode_def)

lemma encode_decode:
  assumes "decode bs = Some (p, n)"
  shows "n \<le> length bs \<and> encode p = take n bs"
proof -
  from assms obtain rest where run: "sexp_from_stream [OpReadSexp] [] bs = Some (p, rest)"
    and n: "n = length bs - length rest"
    by (auto simp: decode_def split: option.splits)
  from sexp_from_stream_rebuild [OF run] obtain ps
    where bs: "bs = concat (map encode ps) @ rest" and rb: "rebuild [OpReadSexp] [] ps = Some p"
    by blast
  from rb have "ps = [p]" by (auto split: list.splits if_splits)
  with bs n show ?thesis by simp
qed

lemmas codec_defs = decode_def atom_from_stream_def read_size_def marker_len_def
  prefix_marker_def prefix_len_def atom_to_bytes_def size_prefix_def canonical_def

section \<open>The claims\<close>

subsection \<open>\<^verbatim>\<open>/chia_rpc\<close>, \<^verbatim>\<open>/balance\<close> and \<^verbatim>\<open>/utxos\<close>\<close>

text \<open>
  C6. RPC method allow-listing: a request to \<^verbatim>\<open>/chia_rpc\<close> whose method is not in the
  allow list fails with HTTP 400, and the backend is not called: the node is in the state
  it was in, whatever its \<^verbatim>\<open>raw_fetch\<close> would do. A request whose method is in the
  allow list (on a chain the gateway serves) is \<^verbatim>\<open>raw_fetch\<close> of the method and the
  parameters, its answer and the node's new state unchanged.
\<close>

theorem chia_rpc_allow_list:
  "(rpc_method item \<notin> wl \<longrightarrow>
      full_node_rpc wl item chn n =
        (Inl (HTTPException 400 (''unspport chia rpc method: '' @ rpc_method item)), n)) \<and>
   (rpc_method item \<notin> wl \<longrightarrow>
      (\<exists>msg. route_chia_rpc cm wl item ch n = (Inl (HTTPException 400 msg), n))) \<and>
   (rpc_method item \<in> wl \<longrightarrow>
      full_node_rpc wl item chn n = raw_fetch (client chn) (rpc_method item) (params item) n) \<and>
   (rpc_method item \<in> wl \<longrightarrow> cm ch = Some chn \<longrightarrow>
      route_chia_rpc cm wl item ch n = raw_fetch (client chn) (rpc_method item) (params item) n)"
  by (auto simp: full_node_rpc_def route_chia_rpc_def get_chain_def split: option.splits)

theorem chia_rpc_allow_list_witness:
  "''push_tx'' \<notin> sample_white_list \<and>
   route_chia_rpc sample_chains sample_white_list \<lparr>rpc_method = ''push_tx'', params = None\<rparr> ''0x01'' (0::nat)
     = (Inl (HTTPException 400 ''unspport chia rpc method: push_tx''), 0) \<and>
   ''get_blockchain_state'' \<in> sample_white_list \<and>
   sample_chains ''0x01'' = Some (mainnet (mk_spend ''0x01'')) \<and>
   route_chia_rpc sample_chains sample_white_list
       \<lparr>rpc_method = ''get_blockchain_state'', params = Some (JObj [])\<rparr> ''0x01'' (0::nat)
     = (Inr (JObj [(''method'', JStr ''get_blockchain_state'')]), 1)"
  using chia_rpc_allow_list [of "\<lparr>rpc_method = ''get_blockchain_state'', params = Some (JObj [])\<rparr>"
      sample_white_list "mainnet (mk_spend ''0x01'')" "0::nat" sample_chains "''0x01''"]
  by (simp add: sample_world route_chia_rpc_def get_chain_def full_node_rpc_def)

text \<open>
  C9. Balance: when the address decodes and the node answers, \<^verbatim>\<open>/balance\<close> returns
  the sum of \<^verbatim>\<open>coin.amount\<close> over exactly the records of
  \<^verbatim>\<open>get_coin_records_by_puzzle_hash\<close> whose \<^verbatim>\<open>spent\<close> flag is false. Spent records
  add nothing, and with no unspent record the amount is 0. This is the answer of the
  endpoint's body, and of the cached endpoint whenever the cache has no live entry for
  the address.
\<close>

theorem balance_sums_unspent:
  assumes "decode_address dph address (network_prefix ch) = Inr pzh"
    and "get_coin_records_by_puzzle_hash (client ch) pzh False = Inr coin_records"
  shows "\<exists>b. query_balance dph address ch = Inr b \<and>
           balance_amount b
             = sum_list (map (\<lambda>c. amount (coin c)) (filter (\<lambda>c. \<not> spent c) coin_records)) \<and>
           balance_amount b = (\<Sum>c\<leftarrow>coin_records. if spent c then 0 else amount (coin c)) \<and>
           (list_all spent coin_records \<longrightarrow> balance_amount b = 0) \<and>
           (cache_get cache (''balance:'' @ address) now = None \<longrightarrow>
              fst (query_balance_cached dph \<lparr>kw_address = address, kw_chain = ch\<rparr> now cache lg)
                = Inr (Balance b))"
proof -
  have a: "sum_list (map (\<lambda>c. amount (coin c)) (filter (\<lambda>c. \<not> spent c) rs))
             = (\<Sum>c\<leftarrow>rs. if spent c then 0 else amount (coin c))" for rs :: "coin_record list"
    by (induction rs) auto
  have z: "list_all spent rs \<Longrightarrow> (\<Sum>c\<leftarrow>rs. if spent c then 0 else amount (coin c)) = 0"
    for rs :: "coin_record list"
    by (induction rs) auto
  show ?thesis
    using assms
    by (simp add: query_balance_def a z query_balance_cached_def cached_def balance_key_builder_def)
qed

theorem balance_sums_unspent_witness:
  "decode_address sample_dph ''xch1alice'' (network_prefix (mainnet (mk_spend ''0x01''))) = Inr alice_pzh \<and>
   get_coin_records_by_puzzle_hash (client (mainnet (mk_spend ''0x01''))) alice_pzh False = Inr sample_records \<and>
   query_balance sample_dph ''xch1alice'' (mainnet (mk_spend ''0x01'')) = Inr \<lparr>balance_amount = 350\<rparr> \<and>
   cache_get (Map.empty :: json response cache) (''balance:'' @ ''xch1alice'') 100 = None \<and>
   fst (query_balance_cached sample_dph
          \<lparr>kw_address = ''xch1alice'', kw_chain = mainnet (mk_spend ''0x01'')\<rparr> 100
          (Map.empty :: json response cache) [])
     = Inr (Balance \<lparr>balance_amount = 350\<rparr>)"
proof -
  let ?m = "mainnet (mk_spend ''0x01'')"
  have d: "decode_address sample_dph ''xch1alice'' (network_prefix ?m) = Inr alice_pzh"
    by (rule sample_address)
  have r: "get_coin_records_by_puzzle_hash (client ?m) alice_pzh False = Inr sample_records"
    by (simp add: sample_world)
  have e: "cache_get (Map.empty :: json response cache) (''balance:'' @ ''xch1alice'') 100 = None"
    by (simp add: cache_get_def)
  from balance_sums_unspent [OF d r, where cache = "Map.empty :: json response cache"
      and now = 100 and lg = "[]"] e
  obtain b where q: "query_balance sample_dph ''xch1alice'' ?m = Inr b"
    and s: "balance_amount b
              = sum_list (map (\<lambda>c. amount (coin c)) (filter (\<lambda>c. \<not> spent c) sample_records))"
    and c: "fst (query_balance_cached sample_dph \<lparr>kw_address = ''xch1alice'', kw_chain = ?m\<rparr> 100
                   (Map.empty :: json response cache) []) = Inr (Balance b)"
    by blast
  from s have "b = \<lparr>balance_amount = 350\<rparr>"
    by (cases b) (simp add: sample_records_def mk_record_def)
  with d r e q c show ?thesis by simp
qed

text \<open>
  C10. UTXO listing: when the address decodes and the node answers, the entries of
  \<^verbatim>\<open>/utxos\<close> are the unspent records, in order. Every entry comes from a record whose
  \<^verbatim>\<open>spent\<close> flag is false, its \<^verbatim>\<open>parent_coin_info\<close> and \<^verbatim>\<open>puzzle_hash\<close> are the
  coin's, and its \<^verbatim>\<open>amount\<close> is the decimal string of the coin's integer amount
  (reading the string back gives the amount). This is the answer of the endpoint's body,
  and of the cached endpoint whenever the cache has no live entry for the address.
\<close>

theorem utxos_unspent_only:
  assumes "decode_address dph address (network_prefix ch) = Inr pzh"
    and "get_coin_records_by_puzzle_hash (client ch) pzh False = Inr coin_records"
  shows "\<exists>data. get_utxos dph address ch = Inr data \<and>
           data = map (\<lambda>r. coin_javascript_compat (coin r)) (filter (\<lambda>r. \<not> spent r) coin_records) \<and>
           (\<forall>u \<in> set data. \<exists>r \<in> set coin_records. \<not> spent r \<and>
              utxo_parent_coin_info u = parent_coin_info (coin r) \<and>
              utxo_puzzle_hash u = puzzle_hash (coin r) \<and>
              utxo_amount u = str_int (amount (coin r)) \<and>
              int_of_decimal (utxo_amount u) = amount (coin r)) \<and>
           (cache_get cache (''utxos:'' @ address) now = None \<longrightarrow>
              fst (get_utxos_cached dph \<lparr>kw_address = address, kw_chain = ch\<rparr> now cache lg)
                = Inr (Utxos data))"
  using assms
  by (auto simp: get_utxos_def utxos_loop_filter coin_javascript_compat_def int_of_decimal_str_int
      get_utxos_cached_def cached_def utxos_key_builder_def)

theorem utxos_unspent_only_witness:
  "decode_address sample_dph ''xch1alice'' (network_prefix (mainnet (mk_spend ''0x01''))) = Inr alice_pzh \<and>
   get_coin_records_by_puzzle_hash (client (mainnet (mk_spend ''0x01''))) alice_pzh False = Inr sample_records \<and>
   get_utxos sample_dph ''xch1alice'' (mainnet (mk_spend ''0x01''))
     = Inr [\<lparr>utxo_parent_coin_info = ''0x01'', utxo_puzzle_hash = ''0xabcd'', utxo_amount = ''100''\<rparr>,
            \<lparr>utxo_parent_coin_info = ''0x03'', utxo_puzzle_hash = ''0xabcd'', utxo_amount = ''250''\<rparr>] \<and>
   cache_get (Map.empty :: json response cache) (''utxos:'' @ ''xch1alice'') 100 = None \<and>
   fst (get_utxos_cached sample_dph
          \<lparr>kw_address = ''xch1alice'', kw_chain = mainnet (mk_spend ''0x01'')\<rparr> 100
          (Map.empty :: json response cache) [])
     = Inr (Utxos sample_utxos)"
proof -
  let ?m = "mainnet (mk_spend ''0x01'')"
  have d: "decode_address sample_dph ''xch1alice'' (network_prefix ?m) = Inr alice_pzh"
    by (rule sample_address)
  have r: "get_coin_records_by_puzzle_hash (client ?m) alice_pzh False = Inr sample_records"
    by (simp add: sample_world)
  have e: "cache_get (Map.empty :: json response cache) (''utxos:'' @ ''xch1alice'') 100 = None"
    by (simp add: cache_get_def)
  have v: "map (\<lambda>r. coin_javascript_compat (coin r)) (filter (\<lambda>r. \<not> spent r) sample_records)
             = sample_utxos"
    by (simp add: sample_records_def mk_record_def coin_javascript_compat_def str_int_def
        str_nat.simps digit_char_def sample_utxos_def)
  from utxos_unspent_only [OF d r, where cache = "Map.empty :: json response cache"
      and now = 100 and lg = "[]"] e
  have "get_utxos sample_dph ''xch1alice'' ?m = Inr sample_utxos \<and>
        fst (get_utxos_cached sample_dph \<lparr>kw_address = ''xch1alice'', kw_chain = ?m\<rparr> 100
               (Map.empty :: json response cache) []) = Inr (Utxos sample_utxos)"
    unfolding v by blast
  with d r e show ?thesis by (simp add: sample_utxos_def)
qed

subsection \<open>\<^verbatim>\<open>/nfts\<close>\<close>

text \<open>
  C1. Batch isolation in \<^verbatim>\<open>list_nfts\<close>: a coin whose puzzle or solution bytes do not
  decode, or whose extraction fails, should be skipped, the remaining coins listed and
  no exception leave the call. The loop does this for the extractor, whose call stands
  in \<^verbatim>\<open>try ... except Exception: continue\<close>, and misses it for the three
  deserialisations, which stand just before the \<^verbatim>\<open>try\<close>. The code run on five hinted
  coins of which the third has a truncated puzzle: the batch is fetched,
  \<^verbatim>\<open>Program.fromhex\<close> raises \<^verbatim>\<open>MalformedEncoding\<close> on the third puzzle, the exception
  leaves \<^verbatim>\<open>list_nfts\<close> and nothing is listed, although the four other coins deserialise
  and the loop over them alone lists four dictionaries.
\<close>

theorem batch_isolation_failing_input:
  "nft_batch sample_dph sample_lib sample_start_heights sample_order ''xch1alice''
       (mainnet (mk_spend ''0xff81a3ff82ab'')) = Inr (alice_pzh, sample_batch ''0xff81a3ff82ab'') \<and>
   length (sample_batch ''0xff81a3ff82ab'') = 5 \<and>
   sample_fromhex ''0xff81a3ff82ab'' = Inl MalformedEncoding \<and>
   nft_item sample_lib alice_pzh (sample_batch ''0xff81a3ff82ab'' ! 2) = Raise MalformedEncoding \<and>
   list_nfts sample_dph sample_lib sample_start_heights sample_order ''xch1alice''
       (mainnet (mk_spend ''0xff81a3ff82ab'')) [] = (Inl MalformedEncoding, []) \<and>
   filter (deserialises sample_lib) (sample_batch ''0xff81a3ff82ab'')
     = [sample_batch ''0xff81a3ff82ab'' ! 0, sample_batch ''0xff81a3ff82ab'' ! 1,
        sample_batch ''0xff81a3ff82ab'' ! 3, sample_batch ''0xff81a3ff82ab'' ! 4] \<and>
   nft_loop sample_lib alice_pzh (filter (deserialises sample_lib) (sample_batch ''0xff81a3ff82ab''))
       [] [] = (Inr [owned ''a1'', owned ''a2'', owned ''a4'', owned ''a5''], [])"
proof -
  let ?b = "sample_batch ''0xff81a3ff82ab''"
  have m: "sample_fromhex ''0xff81a3ff82ab'' = Inl MalformedEncoding"
    by (simp add: sample_codec)
  have f: "filter (deserialises sample_lib) ?b = [?b ! 0, ?b ! 1, ?b ! 3, ?b ! 4]"
    by (simp add: sample_batch_def nft_records_def deserialises_sample) (simp add: sample_codec)
  have r: "nft_item sample_lib alice_pzh (?b ! 2) = Raise MalformedEncoding"
    by (simp add: sample_batch_def nft_records_def sample_nft_item)
  have l: "list_nfts sample_dph sample_lib sample_start_heights sample_order ''xch1alice''
             (mainnet (mk_spend ''0xff81a3ff82ab'')) [] = (Inl MalformedEncoding, [])"
    by (simp add: sample_list_nfts) (simp add: sample_batch_def nft_records_def sample_nft_item)
  have "nft_loop sample_lib alice_pzh [?b ! 0, ?b ! 1, ?b ! 3, ?b ! 4] [] []
          = (Inr [owned ''a1'', owned ''a2'', owned ''a4'', owned ''a5''], [])"
    by (simp add: sample_batch_def nft_records_def sample_nft_item)
  with m f r l show ?thesis
    by (simp add: sample_nft_batch) (simp add: sample_batch_def nft_records_def)
qed

text \<open>
  C2, as the specification states it, fails: the claim is that a failed
  \<^verbatim>\<open>get_puzzle_and_solution\<close> for one coin leaves the sibling coins of the batch
  processed. Here the call for the third coin fails and the calls for the others
  succeed; \<^verbatim>\<open>asyncio.gather\<close> raises the failure and \<^verbatim>\<open>list_nfts\<close> ends with it.
\<close>

theorem rpc_failure_counterexample:
  "puzzle_calls sample_lib nft_records = Inr [([1], 11), ([2], 12), ([3], 13), ([4], 14), ([5], 15)] \<and>
   get_puzzle_and_solution (client (mainnet (Inl (RpcError ''timeout'')))) [3] 13
     = Inl (RpcError ''timeout'') \<and>
   get_puzzle_and_solution (client (mainnet (Inl (RpcError ''timeout'')))) [1] 11
     = Inr \<lparr>puzzle_reveal = ''0xff81a1ff82abcd80'', solution = ''0x80''\<rparr> \<and>
   list_nfts sample_dph sample_lib sample_start_heights sample_order ''xch1alice''
       (mainnet (Inl (RpcError ''timeout''))) [] = (Inl (RpcError ''timeout''), [])"
  by (simp add: sample_calls)
     (simp add: list_nfts_def nft_batch_def decode_address_def sample_world
        sample_hexstr_to_bytes_def hex_digit_value_def gather_def sample_order_def)

text \<open>
  C2, amended. A failure of \<^verbatim>\<open>get_puzzle_and_solution\<close> for any coin of the batch
  aborts \<^verbatim>\<open>list_nfts\<close>: the call ends with the exception of a failed call of the batch,
  no coin is processed and no listing is returned.
\<close>

theorem rpc_failure_aborts_listing:
  assumes "decode_address dph address (network_prefix ch) = Inr pzh"
    and "sh (network_name ch) = Some h"
    and "get_coin_records_by_hint (client ch) pzh False h = Inr coin_records"
    and "puzzle_calls L coin_records = Inr calls"
    and "(coin_id, height) \<in> set calls"
    and "get_puzzle_and_solution (client ch) coin_id height = Inl e"
  shows "\<exists>e'. list_nfts dph L sh fin address ch lg = (Inl e', lg) \<and>
           (\<exists>(c, k) \<in> set calls. get_puzzle_and_solution (client ch) c k = Inl e')"
proof -
  let ?rs = "map (\<lambda>(coin_id, height). get_puzzle_and_solution (client ch) coin_id height) calls"
  have "Inl e \<in> set ?rs" using assms(5,6) by force
  then obtain e' where g: "gather fin ?rs = Inl e'" using gather_fails by blast
  then have "Inl e' \<in> set ?rs" by (rule gather_Inl)
  then have "\<exists>(c, k) \<in> set calls. get_puzzle_and_solution (client ch) c k = Inl e'" by force
  moreover have "list_nfts dph L sh fin address ch lg = (Inl e', lg)"
    using assms(1-4) g by (simp add: list_nfts_def nft_batch_def)
  ultimately show ?thesis by blast
qed

theorem rpc_failure_aborts_listing_witness:
  "decode_address sample_dph ''xch1alice'' (network_prefix (mainnet (Inl (RpcError ''timeout''))))
     = Inr alice_pzh \<and>
   sample_start_heights (network_name (mainnet (Inl (RpcError ''timeout'')))) = Some 1000 \<and>
   get_coin_records_by_hint (client (mainnet (Inl (RpcError ''timeout'')))) alice_pzh False 1000
     = Inr nft_records \<and>
   puzzle_calls sample_lib nft_records = Inr [([1], 11), ([2], 12), ([3], 13), ([4], 14), ([5], 15)] \<and>
   get_puzzle_and_solution (client (mainnet (Inl (RpcError ''timeout'')))) [3] 13
     = Inl (RpcError ''timeout'') \<and>
   isl (fst (list_nfts sample_dph sample_lib sample_start_heights sample_order ''xch1alice''
       (mainnet (Inl (RpcError ''timeout''))) []))"
proof -
  let ?ch = "mainnet (Inl (RpcError ''timeout''))"
  have a: "decode_address sample_dph ''xch1alice'' (network_prefix ?ch) = Inr alice_pzh"
    by (rule sample_address)
  have h: "sample_start_heights (network_name ?ch) = Some 1000"
    by (simp add: sample_start_heights_def mainnet_def)
  have r: "get_coin_records_by_hint (client ?ch) alice_pzh False 1000 = Inr nft_records"
    by (simp add: mainnet_def sample_client_def)
  have m: "([3], 13) \<in> set [([1], 11), ([2], 12), ([3], 13), ([4], 14), ([5::byte], 15::nat)]"
    by simp
  have f: "get_puzzle_and_solution (client ?ch) [3] 13 = Inl (RpcError ''timeout'')"
    by (simp add: mainnet_def sample_client_def sample_spends_def)
  from rpc_failure_aborts_listing [where dph = sample_dph and L = sample_lib
      and sh = sample_start_heights and fin = sample_order and address = "''xch1alice''" and ch = ?ch and lg = "[]",
      OF a h r sample_calls m f]
  have "isl (fst (list_nfts sample_dph sample_lib sample_start_heights sample_order ''xch1alice'' ?ch []))"
    by auto
  with a h r sample_calls f show ?thesis by simp
qed

text \<open>
  C3. Owner-mismatch filtering: a coin whose extraction succeeds with an owner other
  than the hex of the queried puzzle hash is passed over with \<^verbatim>\<open>continue\<close>, raising
  nothing, and the loop goes on as if the coin were not there. So every dictionary of
  a returned listing is that of an NFT info, extracted from a coin of the batch, whose
  owner is the hex of the puzzle hash the address decodes to.
\<close>

theorem owner_mismatch_filtered:
  "(extraction L item = Some (Inr i) \<longrightarrow> nft_owner L i \<noteq> bytes_hex pzh \<longrightarrow>
      nft_item L pzh item = Continue \<and>
      nft_loop L pzh (item # rest) data lg = nft_loop L pzh rest data lg) \<and>
   (nft_batch dph L sh fin address ch = Inr (pzh, batch) \<longrightarrow>
    list_nfts dph L sh fin address ch lg = (Inr out, lg') \<longrightarrow>
      decode_address dph address (network_prefix ch) = Inr pzh \<and>
      (\<forall>d \<in> set out. \<exists>item \<in> set batch. \<exists>i. extraction L item = Some (Inr i) \<and>
          nft_owner L i = bytes_hex pzh \<and> d = nft_to_dict L i))"
proof -
  have a: "nft_item L pzh item = Continue"
    if "extraction L item = Some (Inr i)" "nft_owner L i \<noteq> bytes_hex pzh"
    using that by (cases item) (auto simp: nft_item_def extraction_def split: sum.splits)
  have b: "decode_address dph address (network_prefix ch) = Inr pzh"
    if "nft_batch dph L sh fin address ch = Inr (pzh, batch)"
    using that by (auto simp: nft_batch_def split: sum.splits option.splits)
  have c: "\<exists>item \<in> set batch. \<exists>i. extraction L item = Some (Inr i) \<and>
          nft_owner L i = bytes_hex pzh \<and> d = nft_to_dict L i"
    if "nft_batch dph L sh fin address ch = Inr (pzh, batch)"
      "list_nfts dph L sh fin address ch lg = (Inr out, lg')" "d \<in> set out" for d
  proof -
    from that(1,2) have "nft_loop L pzh batch [] lg = (Inr out, lg')"
      by (simp add: list_nfts_def)
    from nft_loop_owner [OF this that(3)] show ?thesis by simp
  qed
  show ?thesis using a b c by auto
qed

theorem owner_mismatch_filtered_witness:
  "extraction sample_lib (sample_batch ''0xff81a3ff82123480'' ! 2)
     = Some (Inr \<lparr>sn_launcher_id = ''a3'', sn_owner = ''1234''\<rparr>) \<and>
   nft_owner sample_lib \<lparr>sn_launcher_id = ''a3'', sn_owner = ''1234''\<rparr> \<noteq> bytes_hex alice_pzh \<and>
   nft_item sample_lib alice_pzh (sample_batch ''0xff81a3ff82123480'' ! 2) = Continue \<and>
   nft_batch sample_dph sample_lib sample_start_heights sample_order ''xch1alice''
       (mainnet (mk_spend ''0xff81a3ff82123480''))
     = Inr (alice_pzh, sample_batch ''0xff81a3ff82123480'') \<and>
   list_nfts sample_dph sample_lib sample_start_heights sample_order ''xch1alice''
       (mainnet (mk_spend ''0xff81a3ff82123480'')) []
     = (Inr [owned ''a1'', owned ''a2'', owned ''a4'', owned ''a5''], []) \<and>
   decode_address sample_dph ''xch1alice'' (network_prefix (mainnet (mk_spend ''0xff81a3ff82123480'')))
     = Inr alice_pzh"
proof -
  let ?item = "sample_batch ''0xff81a3ff82123480'' ! 2"
  let ?i = "\<lparr>sn_launcher_id = ''a3'', sn_owner = ''1234''\<rparr>"
  have x: "extraction sample_lib ?item = Some (Inr ?i)"
    by (rule sample_extraction)
  have o: "nft_owner sample_lib ?i \<noteq> bytes_hex alice_pzh"
    by (simp add: sample_lib_def alice_pzh_def sample_codec)
  have l: "list_nfts sample_dph sample_lib sample_start_heights sample_order ''xch1alice''
       (mainnet (mk_spend ''0xff81a3ff82123480'')) []
     = (Inr [owned ''a1'', owned ''a2'', owned ''a4'', owned ''a5''], [])"
    by (simp add: sample_listing)
  from owner_mismatch_filtered [where L = sample_lib and item = ?item and i = ?i
      and pzh = alice_pzh and rest = "[]" and data = "[]" and lg = "[]" and dph = sample_dph
      and sh = sample_start_heights and fin = sample_order and address = "''xch1alice''"
      and ch = "mainnet (mk_spend ''0xff81a3ff82123480'')"
      and batch = "sample_batch ''0xff81a3ff82123480''"
      and out = "[owned ''a1'', owned ''a2'', owned ''a4'', owned ''a5'']" and lg' = "[]"]
    x o l sample_nft_batch [where third = "''0xff81a3ff82123480''" and fin = sample_order]
  show ?thesis by simp
qed

text \<open>
  C5, as the specification states it, fails: the claim is that an extraction ending in
  \<^verbatim>\<open>UnsupportedNFTVersion\<close> is logged or counted, apart from a plain
  \<^verbatim>\<open>NotAnNFT\<close>. Here the third coin's extraction raises the one and then the other:
  the listing is the same and the log stays empty both times.
\<close>

theorem unsupported_version_counterexample:
  "extraction sample_lib (sample_batch ''0xff0102'' ! 2) = Some (Inl UnsupportedNFTVersion) \<and>
   extraction sample_lib (sample_batch ''0x01'' ! 2) = Some (Inl NotAnNFT) \<and>
   list_nfts sample_dph sample_lib sample_start_heights sample_order ''xch1alice'' (mainnet (mk_spend ''0xff0102'')) []
     = (Inr [owned ''a1'', owned ''a2'', owned ''a4'', owned ''a5''], []) \<and>
   list_nfts sample_dph sample_lib sample_start_heights sample_order ''xch1alice'' (mainnet (mk_spend ''0x01'')) []
     = (Inr [owned ''a1'', owned ''a2'', owned ''a4'', owned ''a5''], [])"
  by (simp add: sample_extraction sample_listing)

text \<open>
  C5, amended. \<^verbatim>\<open>list_nfts\<close> treats every exception of the extractor alike:
  \<^verbatim>\<open>UnsupportedNFTVersion\<close> skips the coin exactly as \<^verbatim>\<open>NotAnNFT\<close> does, the
  answer is the one an extractor raising only \<^verbatim>\<open>NotAnNFT\<close> would give, and nothing is
  written to the log.
\<close>

theorem extraction_errors_alike:
  "list_nfts dph (plain_non_match L) sh fin address ch lg = list_nfts dph L sh fin address ch lg \<and>
   snd (list_nfts dph L sh fin address ch lg) = lg \<and>
   (extraction L item = Some (Inl UnsupportedNFTVersion) \<longrightarrow> nft_item L pzh item = Continue) \<and>
   (extraction L item = Some (Inl NotAnNFT) \<longrightarrow> nft_item L pzh item = Continue)"
  by (simp add: list_nfts_def nft_batch_plain nft_loop_plain list_nfts_log nft_loop_log
      nft_item_extraction_fails split: sum.splits prod.splits)

theorem extraction_errors_alike_witness:
  "extraction sample_lib (sample_batch ''0xff0102'' ! 2) = Some (Inl UnsupportedNFTVersion) \<and>
   nft_item sample_lib alice_pzh (sample_batch ''0xff0102'' ! 2) = Continue \<and>
   extraction sample_lib (sample_batch ''0x01'' ! 2) = Some (Inl NotAnNFT) \<and>
   nft_item sample_lib alice_pzh (sample_batch ''0x01'' ! 2) = Continue \<and>
   list_nfts sample_dph (plain_non_match sample_lib) sample_start_heights sample_order ''xch1alice''
       (mainnet (mk_spend ''0xff0102'')) []
     = (Inr [owned ''a1'', owned ''a2'', owned ''a4'', owned ''a5''], [])"
proof -
  have u: "extraction sample_lib (sample_batch ''0xff0102'' ! 2) = Some (Inl UnsupportedNFTVersion)"
    by (rule sample_extraction)
  have n: "extraction sample_lib (sample_batch ''0x01'' ! 2) = Some (Inl NotAnNFT)"
    by (rule sample_extraction)
  have l: "list_nfts sample_dph sample_lib sample_start_heights sample_order ''xch1alice'' (mainnet (mk_spend ''0xff0102'')) []
     = (Inr [owned ''a1'', owned ''a2'', owned ''a4'', owned ''a5''], [])"
    by (simp add: sample_listing)
  from extraction_errors_alike [where dph = sample_dph and L = sample_lib
      and sh = sample_start_heights and fin = sample_order and address = "''xch1alice''"
      and ch = "mainnet (mk_spend ''0xff0102'')" and lg = "[]"
      and item = "sample_batch ''0xff0102'' ! 2" and pzh = alice_pzh]
    extraction_errors_alike [where dph = sample_dph and L = sample_lib
      and sh = sample_start_heights and fin = sample_order and address = "''xch1alice''"
      and ch = "mainnet (mk_spend ''0xff0102'')" and lg = "[]"
      and item = "sample_batch ''0x01'' ! 2" and pzh = alice_pzh]
    u n l
  show ?thesis by simp
qed

subsection \<open>The cache\<close>

text \<open>
  C7. Cache configuration: the key of a cached read endpoint is the endpoint's name, a
  colon and the address. A miss stores the answer under that key with an expiry 10 time
  units after the call for \<^verbatim>\<open>/utxos\<close> and \<^verbatim>\<open>/balance\<close>, and 20 for \<^verbatim>\<open>/nfts\<close>; a
  live entry under that key is the answer; an entry is live for the times before its
  expiry.
\<close>

theorem cache_configuration:
  "utxos_key_builder \<lparr>kw_address = a, kw_chain = chn\<rparr> = ''utxos:'' @ a \<and>
   balance_key_builder \<lparr>kw_address = a, kw_chain = chn\<rparr> = ''balance:'' @ a \<and>
   nfts_key_builder \<lparr>kw_address = a, kw_chain = chn\<rparr> = ''nfts:'' @ a \<and>
   (cache_get c (''utxos:'' @ a) now = None \<longrightarrow> get_utxos dph a chn = Inr us \<longrightarrow>
      get_utxos_cached dph \<lparr>kw_address = a, kw_chain = chn\<rparr> now c lg
        = (Inr (Utxos us), c(''utxos:'' @ a \<mapsto> (Utxos us, now + 10)), lg)) \<and>
   (cache_get c (''balance:'' @ a) now = None \<longrightarrow> query_balance dph a chn = Inr b \<longrightarrow>
      query_balance_cached dph \<lparr>kw_address = a, kw_chain = chn\<rparr> now c lg
        = (Inr (Balance b), c(''balance:'' @ a \<mapsto> (Balance b, now + 10)), lg)) \<and>
   (cache_get c (''nfts:'' @ a) now = None \<longrightarrow> list_nfts dph L sh fin a chn lg = (Inr ds, lg') \<longrightarrow>
      list_nfts_cached dph L sh fin \<lparr>kw_address = a, kw_chain = chn\<rparr> now c lg
        = (Inr (Nfts ds), c(''nfts:'' @ a \<mapsto> (Nfts ds, now + 20)), lg')) \<and>
   (cache_get c (''utxos:'' @ a) now = Some v \<longrightarrow>
      get_utxos_cached dph \<lparr>kw_address = a, kw_chain = chn\<rparr> now c lg = (Inr v, c, lg)) \<and>
   (cache_get c (''balance:'' @ a) now = Some v \<longrightarrow>
      query_balance_cached dph \<lparr>kw_address = a, kw_chain = chn\<rparr> now c lg = (Inr v, c, lg)) \<and>
   (cache_get c (''nfts:'' @ a) now = Some v \<longrightarrow>
      list_nfts_cached dph L sh fin \<lparr>kw_address = a, kw_chain = chn\<rparr> now c lg = (Inr v, c, lg)) \<and>
   cache_get (c(key \<mapsto> (v, now + ttl))) key t = (if t < now + ttl then Some v else None)"
  by (simp add: utxos_key_builder_def balance_key_builder_def nfts_key_builder_def
      get_utxos_cached_def query_balance_cached_def list_nfts_cached_def cached_def
      cache_get_stored)

theorem cache_configuration_witness:
  "cache_get (Map.empty :: json response cache) (''utxos:'' @ ''xch1alice'') 100 = None \<and>
   get_utxos sample_dph ''xch1alice'' (mainnet (mk_spend ''0x01'')) = Inr sample_utxos \<and>
   get_utxos_cached sample_dph \<lparr>kw_address = ''xch1alice'', kw_chain = mainnet (mk_spend ''0x01'')\<rparr>
       100 (Map.empty :: json response cache) []
     = (Inr (Utxos sample_utxos), [''utxos:xch1alice'' \<mapsto> (Utxos sample_utxos, 110)], []) \<and>
   query_balance sample_dph ''xch1alice'' (mainnet (mk_spend ''0x01'')) = Inr \<lparr>balance_amount = 350\<rparr> \<and>
   query_balance_cached sample_dph \<lparr>kw_address = ''xch1alice'', kw_chain = mainnet (mk_spend ''0x01'')\<rparr>
       100 (Map.empty :: json response cache) []
     = (Inr (Balance \<lparr>balance_amount = 350\<rparr>),
        [''balance:xch1alice'' \<mapsto> (Balance \<lparr>balance_amount = 350\<rparr>, 110)], []) \<and>
   list_nfts sample_dph sample_lib sample_start_heights sample_order ''xch1alice'' (mainnet (mk_spend ''0x01'')) []
     = (Inr sample_nfts, []) \<and>
   list_nfts_cached sample_dph sample_lib sample_start_heights sample_order
       \<lparr>kw_address = ''xch1alice'', kw_chain = mainnet (mk_spend ''0x01'')\<rparr> 100 Map.empty []
     = (Inr (Nfts sample_nfts), [''nfts:xch1alice'' \<mapsto> (Nfts sample_nfts, 120)], []) \<and>
   cache_get [''nfts:xch1alice'' \<mapsto> (Nfts sample_nfts, 120)] (''nfts:'' @ ''xch1alice'') 119
     = Some (Nfts sample_nfts) \<and>
   list_nfts_cached sample_dph sample_lib sample_start_heights sample_order
       \<lparr>kw_address = ''xch1alice'', kw_chain = testnet\<rparr> 119
       [''nfts:xch1alice'' \<mapsto> (Nfts sample_nfts, 120)] []
     = (Inr (Nfts sample_nfts), [''nfts:xch1alice'' \<mapsto> (Nfts sample_nfts, 120)], []) \<and>
   cache_get [''utxos:xch1alice'' \<mapsto> (Utxos sample_utxos :: json response, 110)]
       (''utxos:'' @ ''xch1alice'') 109 = Some (Utxos sample_utxos) \<and>
   get_utxos_cached sample_dph \<lparr>kw_address = ''xch1alice'', kw_chain = testnet\<rparr> 109
       [''utxos:xch1alice'' \<mapsto> (Utxos sample_utxos :: json response, 110)] []
     = (Inr (Utxos sample_utxos), [''utxos:xch1alice'' \<mapsto> (Utxos sample_utxos, 110)], []) \<and>
   cache_get [''balance:xch1alice'' \<mapsto> (Balance \<lparr>balance_amount = 350\<rparr> :: json response, 110)]
       (''balance:'' @ ''xch1alice'') 109 = Some (Balance \<lparr>balance_amount = 350\<rparr>) \<and>
   query_balance_cached sample_dph \<lparr>kw_address = ''xch1alice'', kw_chain = testnet\<rparr> 109
       [''balance:xch1alice'' \<mapsto> (Balance \<lparr>balance_amount = 350\<rparr> :: json response, 110)] []
     = (Inr (Balance \<lparr>balance_amount = 350\<rparr>),
        [''balance:xch1alice'' \<mapsto> (Balance \<lparr>balance_amount = 350\<rparr>, 110)], []) \<and>
   cache_get [''utxos:xch1alice'' \<mapsto> (Utxos sample_utxos :: json response, 110)]
       (''utxos:'' @ ''xch1alice'') 110 = None"
proof -
  let ?m = "mainnet (mk_spend ''0x01'')"
  let ?cu = "[''utxos:xch1alice'' \<mapsto> (Utxos sample_utxos :: json response, 110)]"
  let ?cb = "[''balance:xch1alice'' \<mapsto> (Balance \<lparr>balance_amount = 350\<rparr> :: json response, 110)]"
  let ?cn = "[''nfts:xch1alice'' \<mapsto> (Nfts sample_nfts, 120)]"
  note miss = cache_configuration [where a = "''xch1alice''" and chn = ?m and dph = sample_dph
      and c = "Map.empty :: json response cache" and now = 100 and lg = "[]" and lg' = "[]"
      and us = sample_utxos and b = "\<lparr>balance_amount = 350\<rparr>" and ds = sample_nfts
      and L = sample_lib and sh = sample_start_heights and fin = sample_order]
  note hit_u = cache_configuration [where a = "''xch1alice''" and chn = testnet and dph = sample_dph
      and c = ?cu and now = 109 and lg = "[]" and v = "Utxos sample_utxos"
      and L = sample_lib and sh = sample_start_heights and fin = sample_order]
  note hit_b = cache_configuration [where a = "''xch1alice''" and chn = testnet and dph = sample_dph
      and c = ?cb and now = 109 and lg = "[]" and v = "Balance \<lparr>balance_amount = 350\<rparr>"
      and L = sample_lib and sh = sample_start_heights and fin = sample_order]
  note hit_n = cache_configuration [where a = "''xch1alice''" and chn = testnet and dph = sample_dph
      and c = ?cn and now = 119 and lg = "[]" and v = "Nfts sample_nfts"
      and L = sample_lib and sh = sample_start_heights and fin = sample_order]
  have e: "cache_get (Map.empty :: json response cache) k 100 = None" for k
    by (simp add: cache_get_def)
  have g: "cache_get ?cu (''utxos:'' @ ''xch1alice'') 109 = Some (Utxos sample_utxos)"
    "cache_get ?cb (''balance:'' @ ''xch1alice'') 109 = Some (Balance \<lparr>balance_amount = 350\<rparr>)"
    "cache_get ?cn (''nfts:'' @ ''xch1alice'') 119 = Some (Nfts sample_nfts)"
    "cache_get ?cu (''utxos:'' @ ''xch1alice'') 110 = None"
    by (simp_all add: cache_get_def)
  show ?thesis
    using miss hit_u hit_b hit_n e g sample_get_utxos [of "mk_spend ''0x01''"]
      sample_query_balance [of "mk_spend ''0x01''"] sample_list_nfts_plain
    by simp
qed

text \<open>
  C4. Cache keys ignore the chain: for \<^verbatim>\<open>/utxos\<close>, \<^verbatim>\<open>/balance\<close> and \<^verbatim>\<open>/nfts\<close> the
  key is built from the address alone, so two requests with the same address and
  different chains have the same key. After a request for one chain has filled the
  cache, a request for another chain with the same address, made before the entry
  expires, gets the first chain's answer and leaves the cache as it is.
\<close>

theorem cache_key_ignores_chain:
  "utxos_key_builder \<lparr>kw_address = a, kw_chain = c1\<rparr>
     = utxos_key_builder \<lparr>kw_address = a, kw_chain = c2\<rparr> \<and>
   balance_key_builder \<lparr>kw_address = a, kw_chain = c1\<rparr>
     = balance_key_builder \<lparr>kw_address = a, kw_chain = c2\<rparr> \<and>
   nfts_key_builder \<lparr>kw_address = a, kw_chain = c1\<rparr>
     = nfts_key_builder \<lparr>kw_address = a, kw_chain = c2\<rparr> \<and>
   (cm ch1 = Some c1 \<longrightarrow> cm ch2 = Some c2 \<longrightarrow> cache_get c (''utxos:'' @ a) now = None \<longrightarrow>
    route_utxos cm dph a ch1 now c lg = (Inr v, c', lg') \<longrightarrow> t < now + 10 \<longrightarrow>
      route_utxos cm dph a ch2 t c' lg'' = (Inr v, c', lg'')) \<and>
   (cm ch1 = Some c1 \<longrightarrow> cm ch2 = Some c2 \<longrightarrow> cache_get c (''balance:'' @ a) now = None \<longrightarrow>
    route_balance cm dph a ch1 now c lg = (Inr v, c', lg') \<longrightarrow> t < now + 10 \<longrightarrow>
      route_balance cm dph a ch2 t c' lg'' = (Inr v, c', lg'')) \<and>
   (cm ch1 = Some c1 \<longrightarrow> cm ch2 = Some c2 \<longrightarrow> cache_get c (''nfts:'' @ a) now = None \<longrightarrow>
    route_nfts cm dph L sh fin a ch1 now c lg = (Inr v, c', lg') \<longrightarrow> t < now + 20 \<longrightarrow>
      route_nfts cm dph L sh fin' a ch2 t c' lg'' = (Inr v, c', lg''))"
proof -
  have u: "route_utxos cm dph a ch2 t c' lg'' = (Inr v, c', lg'')"
    if "cm ch1 = Some c1" "cm ch2 = Some c2" "cache_get c (''utxos:'' @ a) now = None"
      "route_utxos cm dph a ch1 now c lg = (Inr v, c', lg')" "t < now + 10"
    using that
    by (simp add: route_utxos_def get_chain_def get_utxos_cached_def)
       (rule cached_again [where ?k1.0 = "\<lparr>kw_address = a, kw_chain = c1\<rparr>" and now = now and c = c],
        simp_all add: utxos_key_builder_def)
  have b: "route_balance cm dph a ch2 t c' lg'' = (Inr v, c', lg'')"
    if "cm ch1 = Some c1" "cm ch2 = Some c2" "cache_get c (''balance:'' @ a) now = None"
      "route_balance cm dph a ch1 now c lg = (Inr v, c', lg')" "t < now + 10"
    using that
    by (simp add: route_balance_def get_chain_def query_balance_cached_def)
       (rule cached_again [where ?k1.0 = "\<lparr>kw_address = a, kw_chain = c1\<rparr>" and now = now and c = c],
        simp_all add: balance_key_builder_def)
  have n: "route_nfts cm dph L sh fin' a ch2 t c' lg'' = (Inr v, c', lg'')"
    if "cm ch1 = Some c1" "cm ch2 = Some c2" "cache_get c (''nfts:'' @ a) now = None"
      "route_nfts cm dph L sh fin a ch1 now c lg = (Inr v, c', lg')" "t < now + 20"
    using that
    by (simp add: route_nfts_def get_chain_def list_nfts_cached_def)
       (rule cached_again [where ?k1.0 = "\<lparr>kw_address = a, kw_chain = c1\<rparr>" and now = now and c = c],
        simp_all add: nfts_key_builder_def)
  show ?thesis
    using u b n by (simp add: utxos_key_builder_def balance_key_builder_def nfts_key_builder_def)
qed

theorem cache_key_ignores_chain_witness:
  "sample_chains ''0x01'' = Some (mainnet (mk_spend ''0x01'')) \<and>
   sample_chains ''0x02'' = Some testnet \<and>
   cache_get (Map.empty :: json response cache) (''utxos:'' @ ''xch1alice'') 100 = None \<and>
   route_utxos sample_chains sample_dph ''xch1alice'' ''0x01'' 100 (Map.empty :: json response cache) []
     = (Inr (Utxos sample_utxos), [''utxos:xch1alice'' \<mapsto> (Utxos sample_utxos, 110)], []) \<and>
   route_utxos sample_chains sample_dph ''xch1alice'' ''0x02'' 109
       [''utxos:xch1alice'' \<mapsto> (Utxos sample_utxos :: json response, 110)] []
     = (Inr (Utxos sample_utxos), [''utxos:xch1alice'' \<mapsto> (Utxos sample_utxos, 110)], []) \<and>
   get_utxos sample_dph ''xch1alice'' testnet = Inl (HTTPException 400 ''Invalid Address'') \<and>
   route_balance sample_chains sample_dph ''xch1alice'' ''0x01'' 100 (Map.empty :: json response cache) []
     = (Inr (Balance \<lparr>balance_amount = 350\<rparr>),
        [''balance:xch1alice'' \<mapsto> (Balance \<lparr>balance_amount = 350\<rparr>, 110)], []) \<and>
   route_balance sample_chains sample_dph ''xch1alice'' ''0x02'' 109
       [''balance:xch1alice'' \<mapsto> (Balance \<lparr>balance_amount = 350\<rparr> :: json response, 110)] []
     = (Inr (Balance \<lparr>balance_amount = 350\<rparr>),
        [''balance:xch1alice'' \<mapsto> (Balance \<lparr>balance_amount = 350\<rparr>, 110)], []) \<and>
   route_nfts sample_chains sample_dph sample_lib sample_start_heights sample_order ''xch1alice'' ''0x01'' 100
       Map.empty []
     = (Inr (Nfts sample_nfts), [''nfts:xch1alice'' \<mapsto> (Nfts sample_nfts, 120)], []) \<and>
   route_nfts sample_chains sample_dph sample_lib sample_start_heights sample_order ''xch1alice'' ''0x02'' 119
       [''nfts:xch1alice'' \<mapsto> (Nfts sample_nfts, 120)] []
     = (Inr (Nfts sample_nfts), [''nfts:xch1alice'' \<mapsto> (Nfts sample_nfts, 120)], [])"
proof -
  let ?m = "mainnet (mk_spend ''0x01'')"
  let ?cu = "[''utxos:xch1alice'' \<mapsto> (Utxos sample_utxos :: json response, 110)]"
  let ?cb = "[''balance:xch1alice'' \<mapsto> (Balance \<lparr>balance_amount = 350\<rparr> :: json response, 110)]"
  let ?cn = "[''nfts:xch1alice'' \<mapsto> (Nfts sample_nfts, 120)]"
  have e: "cache_get (Map.empty :: json response cache) k 100 = None" for k
    by (simp add: cache_get_def)
  have fu: "route_utxos sample_chains sample_dph ''xch1alice'' ''0x01'' 100
              (Map.empty :: json response cache) [] = (Inr (Utxos sample_utxos), ?cu, [])"
    by (simp add: route_utxos_def get_chain_def sample_chain_lookup get_utxos_cached_def
        cached_def e utxos_key_builder_def sample_get_utxos)
  have fb: "route_balance sample_chains sample_dph ''xch1alice'' ''0x01'' 100
              (Map.empty :: json response cache) []
              = (Inr (Balance \<lparr>balance_amount = 350\<rparr>), ?cb, [])"
    by (simp add: route_balance_def get_chain_def sample_chain_lookup query_balance_cached_def
        cached_def e balance_key_builder_def sample_query_balance)
  have fn: "route_nfts sample_chains sample_dph sample_lib sample_start_heights sample_order ''xch1alice''
              ''0x01'' 100 Map.empty [] = (Inr (Nfts sample_nfts), ?cn, [])"
    by (simp add: route_nfts_def get_chain_def sample_chain_lookup list_nfts_cached_def
        cached_def e nfts_key_builder_def sample_list_nfts_plain)
  note inst = cache_key_ignores_chain [where cm = sample_chains and ?ch1.0 = "''0x01''"
      and ?ch2.0 = "''0x02''" and ?c1.0 = ?m and ?c2.0 = testnet and a = "''xch1alice''"
      and dph = sample_dph and L = sample_lib and sh = sample_start_heights and fin = sample_order
      and fin' = sample_order
      and c = "Map.empty :: json response cache" and now = 100 and lg = "[]" and lg' = "[]"
      and lg'' = "[]"]
  have su: "route_utxos sample_chains sample_dph ''xch1alice'' ''0x02'' 109 ?cu []
              = (Inr (Utxos sample_utxos), ?cu, [])"
    using inst [where v = "Utxos sample_utxos" and c' = ?cu and t = 109] sample_chain_lookup e fu
    by simp
  have sb: "route_balance sample_chains sample_dph ''xch1alice'' ''0x02'' 109 ?cb []
              = (Inr (Balance \<lparr>balance_amount = 350\<rparr>), ?cb, [])"
    using inst [where v = "Balance \<lparr>balance_amount = 350\<rparr>" and c' = ?cb and t = 109]
      sample_chain_lookup e fb
    by simp
  have sn: "route_nfts sample_chains sample_dph sample_lib sample_start_heights sample_order ''xch1alice''
              ''0x02'' 119 ?cn [] = (Inr (Nfts sample_nfts), ?cn, [])"
    using inst [where v = "Nfts sample_nfts" and c' = ?cn and t = 119] sample_chain_lookup e fn
    by simp
  show ?thesis
    using sample_chain_lookup e fu fb fn su sb sn sample_testnet(1) by simp
qed

subsection \<open>The codec\<close>

text \<open>
  C8. Codec round trip: decoding the encoding of a valid program gives the program
  back, having read exactly the encoding (also when more input follows); and for a
  canonical byte string, one the decoder reads to its last byte, encoding the decoded
  program gives the byte string back. More generally the bytes a successful decode has
  consumed are the encoding of its result.
\<close>

theorem codec_round_trip:
  "(valid_program p \<longrightarrow> decode (encode p) = Some (p, length (encode p))) \<and>
   (valid_program p \<longrightarrow> decode (encode p @ rest) = Some (p, length (encode p))) \<and>
   (canonical bs \<longrightarrow> (\<exists>q. decode bs = Some (q, length bs) \<and> encode q = bs)) \<and>
   (decode bs = Some (q, n) \<longrightarrow> n \<le> length bs \<and> encode q = take n bs)"
proof -
  have a: "decode (encode p @ rest) = Some (p, length (encode p))" if "valid_program p" for rest
    using that by (rule decode_encode)
  have b: "\<exists>q. decode bs = Some (q, length bs) \<and> encode q = bs" if "canonical bs"
  proof -
    from that obtain q where d: "decode bs = Some (q, length bs)"
      by (auto simp: canonical_def split: option.splits)
    from encode_decode [OF d] have "encode q = bs" by simp
    with d show ?thesis by blast
  qed
  have c: "n \<le> length bs \<and> encode q = take n bs" if "decode bs = Some (q, n)"
    using that by (rule encode_decode)
  show ?thesis using a [of "[]"] a [of rest] b c by auto
qed

theorem codec_round_trip_witness:
  "valid_program (PairP (Atom [1, 2, 3]) (PairP (Atom [0x7F]) (Atom []))) \<and>
   encode (PairP (Atom [1, 2, 3]) (PairP (Atom [0x7F]) (Atom [])))
     = [0xFF, 0x83, 1, 2, 3, 0xFF, 0x7F, 0x80] \<and>
   decode [0xFF, 0x83, 1, 2, 3, 0xFF, 0x7F, 0x80]
     = Some (PairP (Atom [1, 2, 3]) (PairP (Atom [0x7F]) (Atom [])), 8) \<and>
   decode ([0xFF, 0x83, 1, 2, 3, 0xFF, 0x7F, 0x80] @ [0x05])
     = Some (PairP (Atom [1, 2, 3]) (PairP (Atom [0x7F]) (Atom [])), 8) \<and>
   canonical [0xFF, 0x83, 1, 2, 3, 0xFF, 0x7F, 0x80] \<and>
   encode (Atom []) = [0x80] \<and> encode (Atom [0x05]) = [0x05] \<and>
   decode [0x81, 0x05] = None \<and> decode [0xFF, 0x01] = None"
proof -
  let ?p = "PairP (Atom [1, 2, 3]) (PairP (Atom [0x7F]) (Atom []))"
  let ?bs = "[0xFF, 0x83, 1, 2, 3, 0xFF, 0x7F, 0x80] :: bytes"
  have v: "valid_program ?p" by simp
  have e: "encode ?p = ?bs" by (simp add: atom_to_bytes_def size_prefix_def prefix_len_def prefix_marker_def)
  note rt = codec_round_trip [of ?p "[0x05]" ?bs ?p 8]
  from rt v have "decode (encode ?p) = Some (?p, length (encode ?p))" by blast
  then have d: "decode ?bs = Some (?p, 8)" unfolding e by simp
  from rt v have "decode (encode ?p @ [0x05]) = Some (?p, length (encode ?p))" by blast
  then have d': "decode (?bs @ [0x05]) = Some (?p, 8)" unfolding e by simp
  have c: "canonical ?bs" using d by (simp add: canonical_def)
  from rt c have "\<exists>q. decode ?bs = Some (q, length ?bs) \<and> encode q = ?bs" by blast
  moreover have "encode (Atom []) = [0x80]" "encode (Atom [0x05]) = [0x05]"
    by (simp_all add: atom_to_bytes_def)
  moreover have "decode [0x81, 0x05] = None" "decode [0xFF, 0x01] = None"
    by (simp_all add: codec_defs)
  ultimately show ?thesis using v e d d' c by simp
qed

end
